theory Spec2Isabelle
  imports Complex_Main
begin

section \<open>Data model\<close>

text \<open>
  The storage engine is MySQL, reached through a connection pool. A table is the list of
  its rows; the tables are \<open>administrador\<close>, \<open>carrera\<close>, \<open>admin_carrera\<close>,
  \<open>materia\<close>, \<open>horario\<close> and \<open>correlatividad\<close>. Lifecycle states and roles are the
  strings the code compares with (\<open>'activo'\<close>, \<open>'activa'\<close>, \<open>'Coordinador'\<close>, ...).
  Identifiers are natural numbers. The route parameter \<open>:id\<close> of the two administrator
  routes is kept as the string the client sent, because the code compares it as a string
  with the identifier of the principal; everywhere else a parameter holding an identifier
  only reaches a statement, and is the identifier it is equal to there. \<open>NOW()\<close> is a
  timestamp handed to the operation.
\<close>

type_synonym ident = nat
type_synonym timestamp = nat

text \<open>A password is a JavaScript string: a sequence of UTF-16 code units.\<close>

type_synonym jsstring = "nat list"

text \<open>The stored credential: the bcrypt hash of a password (the salt is not modelled).\<close>

datatype hashed = Bcrypt jsstring

record administrador =
  id_administrador :: ident
  nombre_administrador :: string
  email :: "string option"
  contrasena :: hashed
  dni :: "string option"
  telefono :: "string option"
  rol :: string
  a_estado :: string
  a_fecha_eliminacion :: "timestamp option"
  a_id_administrador_eliminacion :: "ident option"

record carrera =
  id_carrera :: ident
  nombre_carrera :: string
  duracion :: nat
  c_modalidad :: string
  anio_aprobacion :: nat
  c_estado :: string
  c_fecha_eliminacion :: "timestamp option"
  c_id_administrador_eliminacion :: "ident option"

record materia =
  id_materia :: ident
  nombre_materia :: string
  m_id_carrera :: ident
  anio :: nat
  m_estado :: string
  m_fecha_eliminacion :: "timestamp option"
  m_id_administrador_eliminacion :: "ident option"

record horario =
  id_horario :: ident
  h_id_materia :: ident
  dia_semana :: string
  hora_inicio :: string
  hora_fin :: string
  h_estado :: string
  h_fecha_eliminacion :: "timestamp option"
  h_id_administrador_eliminacion :: "ident option"

record correlatividad =
  id_correlatividad :: ident
  id_materia_principal :: ident
  id_materia_requisito :: ident
  tipo :: string
  estado_requisito :: string
  k_estado :: string
  k_fecha_eliminacion :: "timestamp option"
  k_id_administrador_eliminacion :: "ident option"

text \<open>
  A row of \<open>admin_carrera\<close> is the pair (id_administrador, id_carrera). The column
  defaults of \<open>administrador\<close> are part of the schema, which the repository does not
  hold; the default of \<open>estado\<close> is carried by the database value.
\<close>

record db =
  administradores :: "administrador list"
  carreras :: "carrera list"
  admin_carrera :: "(ident \<times> ident) list"
  materias :: "materia list"
  horarios :: "horario list"
  correlatividades :: "correlatividad list"
  next_id_administrador :: ident
  default_estado_administrador :: string

section \<open>Responses, principals and storage failures\<close>

datatype password_error =
    MenosDe8Caracteres
  | SinMayuscula
  | SinMinuscula
  | SinNumero
  | SinCaracterEspecial

text \<open>The messages of the JSON error and acknowledgement bodies, one constructor each.\<close>

datatype message =
    AdministradorNoEncontrado
  | AdministradorNoEncontradoOYaInactivo
  | AdministradorNoSePudoMarcarInactivo
  | CoordinadorSoloEditaSusDatos
  | CoordinadorNoModificaRolOEstado
  | NoPuedeSuspenderSuPropiaCuenta
  | NoPuedeEliminarseASiMismo
  | FaltaIdAdministradorLogueado
  | ErrorDeValidacionContrasena password_error
  | CampoObligatorio string
  | NoHayCamposValidos
  | YaRegistrado
  | AdministradorActualizado
  | AdministradorActualizadoSinCambios
  | AdministradorCreado ident
  | AdministradorEliminado jsstring
  | ErrorInterno
  | FaltanCamposCarrera
  | EstadoCarreraInvalido
  | SoloRectorCierraCarrera
  | SoloCarrerasAsignadas
  | CarreraNoEncontrada
  | CarreraActualizada
  | CarreraActualizadaSinCambios
  | SoloRectorEliminaCarrera
  | CarreraYaInactiva
  | CarreraEliminada
  | PermisosInsuficientes
  | RolNoAutorizado
  | CoordinadorSinCarreras
  | MateriaNoEncontrada
  | MateriaNoEncontradaOAccesoDenegado
  | MateriaYaInactiva
  | SoloMateriasDeSusCarreras
  | MateriaNoEncontradaParaBaja
  | MateriaDadaDeBaja
  | HorarioNoEncontrado
  | HorarioNoEncontradoOInactiva
  | HorarioYaInactivo
  | NoCoordinaLaCarrera
  | HorarioNoEncontradoParaBaja
  | HorarioDadoDeBaja
  | CorrelatividadNoEncontrada
  | CorrelatividadNoEncontradaOInactiva
  | CorrelatividadYaInactiva
  | CorrelatividadNoEncontradaParaBaja
  | CorrelatividadDadaDeBaja
  | FaltaParametroIdMateria
  | FaltanNombreOContrasena
  | FaltanTokenONuevaContrasena
  | EnlaceInvalido
  | EnlaceInvalidoOExpirado
  | ContrasenaRestablecida
  | NoAutorizadoNoHayToken
  | NoAutorizadoTokenInvalido
  | NoAutorizadoAdministradorNoEncontrado
  | CuentaNoActiva string
  | IdMateriaPrincipalObligatorio

datatype reply = Reply (status: nat) (message: message)

text \<open>
  \<open>req.user\<close> as the \<open>protect\<close> middleware builds it: the identifier (under both
  names \<open>id\<close> and \<open>id_administrador\<close>), the role, and for a Coordinador the list of the
  careers assigned, \<open>null\<close> for anyone else.
\<close>

record user =
  u_id :: ident
  u_rol :: string
  carreras_a_cargo_ids :: "ident list option"

text \<open>
  A call to the pool or to a connection may throw. Which calls throw, and with which
  error code, is an input of every operation: \<open>Query n\<close> is the n-th query statement in
  the text of the function.
\<close>

datatype dberror = ER_DUP_ENTRY | ER_NO_REFERENCED_ROW_2 | ER_OTHER

datatype call = GetConnection | BeginTransaction | Query nat | Commit

type_synonym fault = "call \<Rightarrow> dberror option"

definition no_fault :: fault where
  "no_fault = (\<lambda>c. None)"

text \<open>
  A connection inside a transaction: what is committed and what the statements of the
  transaction have written so far. \<open>rollback\<close> gives the committed tables back,
  \<open>commit\<close> makes the written ones the committed ones.
\<close>

record connection =
  committed :: db
  working :: db

definition beginTransaction :: "db \<Rightarrow> connection" where
  "beginTransaction d = \<lparr>committed = d, working = d\<rparr>"

definition rollback :: "connection \<Rightarrow> db" where
  "rollback c = committed c"

definition commit :: "connection \<Rightarrow> db" where
  "commit c = working c"

definition query :: "(db \<Rightarrow> db) \<Rightarrow> connection \<Rightarrow> connection" where
  "query f c = c\<lparr>working := f (working c)\<rparr>"

section \<open>JavaScript values\<close>

text \<open>A body field is absent (\<open>undefined\<close>) or holds a value; a string is truthy when not empty,
  a number when not zero.\<close>

fun truthy :: "'a list option \<Rightarrow> bool" where
  "truthy None = False"
| "truthy (Some s) = (s \<noteq> [])"

fun truthy_num :: "nat option \<Rightarrow> bool" where
  "truthy_num None = False"
| "truthy_num (Some n) = (n \<noteq> 0)"

text \<open>\<open>a || b\<close> on a string field and a string.\<close>

fun or_else :: "'a list option \<Rightarrow> 'a list \<Rightarrow> 'a list" where
  "or_else None d = d"
| "or_else (Some s) d = (if s = [] then d else s)"

text \<open>\<open>v || null\<close>.\<close>

definition or_null :: "string \<Rightarrow> string option" where
  "or_null s = (if s = [] then None else Some s)"

text \<open>
  White space as \<open>\\s\<close> and \<open>String.prototype.trim\<close> take it: tab, line feed, vertical tab,
  form feed, carriage return, space, no-break space, and the Unicode space separators,
  line and paragraph separators and the byte order mark.
\<close>

definition is_space :: "nat \<Rightarrow> bool" where
  "is_space c = (c \<in> {9, 10, 11, 12, 13, 32, 160, 5760, 8232, 8233, 8239, 8287, 12288, 65279}
     \<or> (8192 \<le> c \<and> c \<le> 8202))"

definition is_upper :: "nat \<Rightarrow> bool" where
  "is_upper c = (65 \<le> c \<and> c \<le> 90)"

definition is_lower :: "nat \<Rightarrow> bool" where
  "is_lower c = (97 \<le> c \<and> c \<le> 122)"

definition is_digit :: "nat \<Rightarrow> bool" where
  "is_digit c = (48 \<le> c \<and> c \<le> 57)"

text \<open>
  \<open>String(n)\<close> on a number that is a non-negative integer: its decimal digits, with no
  leading zero.
\<close>

fun String_of :: "nat \<Rightarrow> jsstring" where
  "String_of n = (if n < 10 then [48 + n] else String_of (n div 10) @ [48 + n mod 10])"

declare String_of.simps [simp del]

text \<open>
  MySQL is outside the repository. A string bound to a placeholder that a statement
  compares with an integer column is converted to a number by MySQL; which identifier,
  if any, the string is equal to under that comparison is a parameter of the operations
  that hand a route parameter to their statements as it came. (MySQL reads \<open>'1'\<close> and
  \<open>'01'\<close> alike as 1.)
\<close>

type_synonym mysql = "jsstring \<Rightarrow> ident option"

definition trim :: "jsstring \<Rightarrow> jsstring" where
  "trim s = rev (dropWhile is_space (rev (dropWhile is_space s)))"

section \<open>Password policy\<close>

text \<open>\<open>validatePasswordRules\<close>: the first rule broken, or \<open>null\<close>.\<close>

definition validatePasswordRules :: "jsstring \<Rightarrow> password_error option" where
  "validatePasswordRules password =
     (if length password < 8 then Some MenosDe8Caracteres
      else if \<not> list_ex is_upper password then Some SinMayuscula
      else if \<not> list_ex is_lower password then Some SinMinuscula
      else if \<not> list_ex is_digit password then Some SinNumero
      else if \<not> list_ex (\<lambda>c. \<not> is_lower c \<and> \<not> is_upper c \<and> \<not> is_digit c \<and> \<not> is_space c) password
        then Some SinCaracterEspecial
      else None)"

section \<open>Tokens\<close>

text \<open>
  A token of \<open>jsonwebtoken\<close>: the secret it was signed with, its payload and the time it
  expires at. \<open>jwt.verify\<close> throws (here: \<open>None\<close>) on another secret, on an expired
  token and on a string that is no token.
\<close>

datatype secret = JWT_SECRET | RESET_SECRET

datatype payload = SessionPayload ident string | ResetPayload ident

datatype token = Jwt secret payload timestamp | Malformed

definition jwt_sign :: "timestamp \<Rightarrow> payload \<Rightarrow> secret \<Rightarrow> nat \<Rightarrow> token" where
  "jwt_sign now p s expiresIn = Jwt s p (now + expiresIn)"

fun jwt_verify :: "timestamp \<Rightarrow> token \<Rightarrow> secret \<Rightarrow> payload option" where
  "jwt_verify now (Jwt s' p expires) s = (if s' = s \<and> now < expires then Some p else None)"
| "jwt_verify now Malformed s = None"

text \<open>\<open>generateToken\<close>: a session token for one day.\<close>

definition generateToken :: "timestamp \<Rightarrow> ident \<Rightarrow> string \<Rightarrow> token" where
  "generateToken now i r = jwt_sign now (SessionPayload i r) JWT_SECRET 86400"

section \<open>Administrators\<close>

definition find_administrador :: "db \<Rightarrow> ident \<Rightarrow> administrador option" where
  "find_administrador d i = List.find (\<lambda>a. id_administrador a = i) (administradores d)"

text \<open>\<open>DELETE FROM admin_carrera WHERE id_administrador = ?\<close>\<close>

definition delete_asignaciones_de_admin :: "ident \<Rightarrow> db \<Rightarrow> db" where
  "delete_asignaciones_de_admin i d =
     d\<lparr>admin_carrera := filter (\<lambda>ac. fst ac \<noteq> i) (admin_carrera d)\<rparr>"

text \<open>
  \<open>INSERT INTO administrador (...)\<close>: the new row takes the next identifier and the
  column defaults; the result is the database and \<open>insertId\<close>.
\<close>

definition insert_administrador ::
  "string \<Rightarrow> string option \<Rightarrow> hashed \<Rightarrow> string option \<Rightarrow> string option \<Rightarrow> string \<Rightarrow> db \<Rightarrow> db \<times> ident" where
  "insert_administrador n e h dn t r d =
     (d\<lparr>administradores := administradores d @
          [\<lparr>id_administrador = next_id_administrador d, nombre_administrador = n, email = e,
            contrasena = h, dni = dn, telefono = t, rol = r,
            a_estado = default_estado_administrador d,
            a_fecha_eliminacion = None, a_id_administrador_eliminacion = None\<rparr>],
        next_id_administrador := Suc (next_id_administrador d)\<rparr>,
      next_id_administrador d)"

text \<open>\<open>field || null\<close> on a body field.\<close>

fun field_or_null :: "string option \<Rightarrow> string option" where
  "field_or_null None = None"
| "field_or_null (Some s) = or_null s"

record nuevo_usuario_body =
  n_nombre_administrador :: "string option"
  n_email :: "string option"
  n_contrasena :: "jsstring option"
  n_dni :: "string option"
  n_telefono :: "string option"
  n_rol :: "string option"

text \<open>\<open>createUserByAdmin\<close> (route: Rector only). \<open>Query 1\<close> is the INSERT.\<close>

definition createUserByAdmin :: "fault \<Rightarrow> nuevo_usuario_body \<Rightarrow> db \<Rightarrow> reply \<times> db" where
  "createUserByAdmin flt b d =
     (if \<not> truthy (n_nombre_administrador b) then (Reply 400 (CampoObligatorio ''nombre_administrador''), d)
      else if \<not> truthy (n_contrasena b) then (Reply 400 (CampoObligatorio ''contrasena''), d)
      else if \<not> truthy (n_rol b) then (Reply 400 (CampoObligatorio ''rol''), d)
      else
     (case validatePasswordRules (the (n_contrasena b)) of
        Some validationError \<Rightarrow> (Reply 400 (ErrorDeValidacionContrasena validationError), d)
      | None \<Rightarrow>
         (case flt (Query 1) of
            Some e \<Rightarrow> (if e = ER_DUP_ENTRY then Reply 400 YaRegistrado else Reply 500 ErrorInterno, d)
          | None \<Rightarrow>
             (let (d', insertId) =
                insert_administrador (the (n_nombre_administrador b)) (field_or_null (n_email b))
                  (Bcrypt (the (n_contrasena b))) (field_or_null (n_dni b))
                  (field_or_null (n_telefono b)) (the (n_rol b)) d
              in (Reply 201 (AdministradorCreado insertId), d')))))"

text \<open>The body of \<open>PUT /usuarios/:id\<close>.\<close>

record usuario_body =
  b_nombre_administrador :: "string option"
  b_email :: "string option"
  b_newContrasena :: "jsstring option"
  b_dni :: "string option"
  b_telefono :: "string option"
  b_rol :: "string option"
  b_estado :: "string option"

text \<open>The entries of \<open>sqlParts\<close> with their parameters: one column assignment each.\<close>

datatype assignment =
    SetNombre string
  | SetEmail "string option"
  | SetDni "string option"
  | SetTelefono "string option"
  | SetRol string
  | SetEstado string
  | SetFechaEliminacion "timestamp option"
  | SetIdAdministradorEliminacion "ident option"
  | SetContrasena hashed

fun assign :: "assignment \<Rightarrow> administrador \<Rightarrow> administrador" where
  "assign (SetNombre v) a = a\<lparr>nombre_administrador := v\<rparr>"
| "assign (SetEmail v) a = a\<lparr>email := v\<rparr>"
| "assign (SetDni v) a = a\<lparr>dni := v\<rparr>"
| "assign (SetTelefono v) a = a\<lparr>telefono := v\<rparr>"
| "assign (SetRol v) a = a\<lparr>rol := v\<rparr>"
| "assign (SetEstado v) a = a\<lparr>a_estado := v\<rparr>"
| "assign (SetFechaEliminacion v) a = a\<lparr>a_fecha_eliminacion := v\<rparr>"
| "assign (SetIdAdministradorEliminacion v) a = a\<lparr>a_id_administrador_eliminacion := v\<rparr>"
| "assign (SetContrasena v) a = a\<lparr>contrasena := v\<rparr>"

text \<open>\<open>UPDATE administrador SET ... WHERE id_administrador = ?\<close> and its \<open>affectedRows\<close>
  (the rows the WHERE clause finds).\<close>

definition update_administrador :: "assignment list \<Rightarrow> ident \<Rightarrow> db \<Rightarrow> db" where
  "update_administrador parts i d =
     d\<lparr>administradores :=
        map (\<lambda>a. if id_administrador a = i then fold assign parts a else a) (administradores d)\<rparr>"

definition affected_administrador :: "ident \<Rightarrow> db \<Rightarrow> nat" where
  "affected_administrador i d = length (filter (\<lambda>a. id_administrador a = i) (administradores d))"

fun part_of :: "'a option \<Rightarrow> ('a \<Rightarrow> assignment) \<Rightarrow> assignment list" where
  "part_of None f = []"
| "part_of (Some v) f = [f v]"

text \<open>The personal fields, pushed for Rector and Coordinador alike.\<close>

definition personal_parts :: "usuario_body \<Rightarrow> assignment list" where
  "personal_parts b =
     part_of (b_nombre_administrador b) SetNombre
     @ part_of (b_email b) (\<lambda>v. SetEmail (or_null v))
     @ part_of (b_dni b) (\<lambda>v. SetDni (or_null v))
     @ part_of (b_telefono b) (\<lambda>v. SetTelefono (or_null v))"

text \<open>The protected fields, pushed only when the acting administrator is a Rector.\<close>

definition protected_parts :: "timestamp \<Rightarrow> user \<Rightarrow> usuario_body \<Rightarrow> assignment list" where
  "protected_parts now u b =
     (if u_rol u = ''Rector'' then
        part_of (b_rol b) SetRol
        @ (case b_estado b of
             None \<Rightarrow> []
           | Some e \<Rightarrow>
               SetEstado e #
               (if e = ''suspendido'' \<or> e = ''inactivo''
                  then [SetFechaEliminacion (Some now), SetIdAdministradorEliminacion (Some (u_id u))]
                else if e = ''activo''
                  then [SetFechaEliminacion None, SetIdAdministradorEliminacion None]
                else []))
      else [])"

text \<open>\<open>newContrasena ? String(newContrasena).trim() : ''\<close>\<close>

fun trimmedNewContrasena :: "jsstring option \<Rightarrow> jsstring" where
  "trimmedNewContrasena None = []"
| "trimmedNewContrasena (Some p) = (if p = [] then [] else trim p)"

text \<open>The \<open>catch\<close> block of \<open>updateUserByAdmin\<close>.\<close>

definition catch_update :: "dberror \<Rightarrow> reply" where
  "catch_update e = (if e = ER_DUP_ENTRY then Reply 400 YaRegistrado else Reply 500 ErrorInterno)"

text \<open>
  \<open>updateUserByAdmin\<close>, section 2 (access control): the denial, if any. A: a Coordinador
  edits only their own row. B: a Coordinador sends neither \<open>rol\<close> nor \<open>estado\<close>. C: nobody
  suspends or inactivates their own account. A and C compare \<open>String(req.user.id)\<close> with
  the route parameter as strings.
\<close>

definition estadoAUsar :: "usuario_body \<Rightarrow> administrador \<Rightarrow> string" where
  "estadoAUsar b currentAdmin = or_else (b_estado b) (a_estado currentAdmin)"

definition updateUserByAdmin_access ::
  "user \<Rightarrow> jsstring \<Rightarrow> usuario_body \<Rightarrow> administrador \<Rightarrow> reply option" where
  "updateUserByAdmin_access u idAdminAEditar b currentAdmin =
     (if u_rol u = ''Coordinador'' \<and> String_of (u_id u) \<noteq> idAdminAEditar
        then Some (Reply 403 CoordinadorSoloEditaSusDatos)
      else if u_rol u = ''Coordinador'' \<and> (b_rol b \<noteq> None \<or> b_estado b \<noteq> None)
        then Some (Reply 403 CoordinadorNoModificaRolOEstado)
      else if String_of (u_id u) = idAdminAEditar
              \<and> (estadoAUsar b currentAdmin = ''suspendido'' \<or> estadoAUsar b currentAdmin = ''inactivo'')
              \<and> estadoAUsar b currentAdmin \<noteq> a_estado currentAdmin
        then Some (Reply 403 NoPuedeSuspenderSuPropiaCuenta)
      else None)"

text \<open>Section 3: the assignments go when the final role is Coordinador and the final state
  is suspended or inactive.\<close>

definition desasignar :: "usuario_body \<Rightarrow> administrador \<Rightarrow> bool" where
  "desasignar b currentAdmin =
     (let rolAUsar = or_else (b_rol b) (rol currentAdmin);
          estadoFinal = estadoAUsar b currentAdmin
      in rolAUsar = ''Coordinador'' \<and> (estadoFinal = ''suspendido'' \<or> estadoFinal = ''inactivo''))"

text \<open>Sections 4 and 5: \<open>sqlParts\<close>, or the password rule broken.\<close>

definition build_sqlParts ::
  "timestamp \<Rightarrow> user \<Rightarrow> usuario_body \<Rightarrow> password_error + assignment list" where
  "build_sqlParts now u b =
     (let trimmed = trimmedNewContrasena (b_newContrasena b) in
      case (if trimmed \<noteq> [] then validatePasswordRules trimmed else None) of
        Some validationError \<Rightarrow> Inl validationError
      | None \<Rightarrow>
          Inr (personal_parts b @ protected_parts now u b
               @ (if trimmed \<noteq> [] then [SetContrasena (Bcrypt trimmed)] else [])))"

text \<open>Sections 3 to 6, on the open transaction. \<open>Query 2\<close> is the DELETE of the
  assignments, \<open>Query 3\<close> the UPDATE; both take the route parameter in their WHERE clause,
  and \<open>i\<close> is the identifier it is equal to there.\<close>

definition updateUserByAdmin_write ::
  "fault \<Rightarrow> timestamp \<Rightarrow> user \<Rightarrow> ident \<Rightarrow> usuario_body \<Rightarrow> administrador \<Rightarrow> connection
    \<Rightarrow> reply \<times> db" where
  "updateUserByAdmin_write flt now u i b currentAdmin c =
     (case (if desasignar b currentAdmin then flt (Query 2) else None) of
        Some e \<Rightarrow> (catch_update e, rollback c)
      | None \<Rightarrow>
         (let c1 = (if desasignar b currentAdmin
                    then query (delete_asignaciones_de_admin i) c else c)
          in
          case build_sqlParts now u b of
            Inl validationError \<Rightarrow>
              (Reply 400 (ErrorDeValidacionContrasena validationError), rollback c1)
          | Inr sqlParts \<Rightarrow>
             (if sqlParts = [] then (Reply 400 NoHayCamposValidos, rollback c1)
              else
               (case flt (Query 3) of
                  Some e \<Rightarrow> (catch_update e, rollback c1)
                | None \<Rightarrow>
                   (let affectedRows = affected_administrador i (working c1);
                        c2 = query (update_administrador sqlParts i) c1
                    in
                    case flt Commit of
                      Some e \<Rightarrow> (catch_update e, rollback c2)
                    | None \<Rightarrow>
                       (if affectedRows = 0
                          then Reply 200 AdministradorActualizadoSinCambios
                          else Reply 200 AdministradorActualizado,
                        commit c2))))))"

text \<open>
  \<open>updateUserByAdmin\<close>. \<open>Query 1\<close> is the SELECT of the current row, which finds no row
  when the route parameter is equal to no identifier. Every exit before the commit rolls
  back.
\<close>

definition updateUserByAdmin ::
  "mysql \<Rightarrow> fault \<Rightarrow> timestamp \<Rightarrow> user \<Rightarrow> jsstring \<Rightarrow> usuario_body \<Rightarrow> db \<Rightarrow> reply \<times> db" where
  "updateUserByAdmin M flt now u idAdminAEditar b d =
   (case flt GetConnection of Some e \<Rightarrow> (catch_update e, d) | None \<Rightarrow>
   (case flt BeginTransaction of Some e \<Rightarrow> (catch_update e, d) | None \<Rightarrow>
   (let c = beginTransaction d in
   (case flt (Query 1) of Some e \<Rightarrow> (catch_update e, rollback c) | None \<Rightarrow>
   (case M idAdminAEditar of
      None \<Rightarrow> (Reply 404 AdministradorNoEncontrado, rollback c)
    | Some i \<Rightarrow>
   (case find_administrador (working c) i of
      None \<Rightarrow> (Reply 404 AdministradorNoEncontrado, rollback c)
    | Some currentAdmin \<Rightarrow>
       (case updateUserByAdmin_access u idAdminAEditar b currentAdmin of
          Some denial \<Rightarrow> (denial, rollback c)
        | None \<Rightarrow> updateUserByAdmin_write flt now u i b currentAdmin c)))))))"

text \<open>
  \<open>deleteUserByAdmin\<close> (route: Rector only). \<open>Query 1\<close> is the SELECT, \<open>Query 2\<close> the DELETE
  of the assignments, \<open>Query 3\<close> the UPDATE that marks the row inactive. The guard against
  deleting oneself compares the route parameter \<open>id\<close> (\<open>id_param\<close> here) with
  \<open>String(req.user.id)\<close> as strings; the statements take it in their WHERE clause, where
  it is equal to the identifier \<open>i\<close> or to none, and the acknowledgement gives it back as
  it came.
\<close>

definition soft_delete_administrador :: "timestamp \<Rightarrow> ident \<Rightarrow> ident \<Rightarrow> db \<Rightarrow> db" where
  "soft_delete_administrador now idLogueado i d =
     update_administrador
       [SetEstado ''inactivo'', SetFechaEliminacion (Some now),
        SetIdAdministradorEliminacion (Some idLogueado)] i d"

definition deleteUserByAdmin ::
  "mysql \<Rightarrow> fault \<Rightarrow> timestamp \<Rightarrow> user \<Rightarrow> jsstring \<Rightarrow> db \<Rightarrow> reply \<times> db" where
  "deleteUserByAdmin M flt now u id_param d =
   (if u_id u = 0 then (Reply 401 FaltaIdAdministradorLogueado, d)
    else if id_param = String_of (u_id u) then (Reply 403 NoPuedeEliminarseASiMismo, d)
    else
   (case flt GetConnection of Some e \<Rightarrow> (Reply 500 ErrorInterno, d) | None \<Rightarrow>
   (case flt BeginTransaction of Some e \<Rightarrow> (Reply 500 ErrorInterno, d) | None \<Rightarrow>
   (let c = beginTransaction d in
   (case flt (Query 1) of Some e \<Rightarrow> (Reply 500 ErrorInterno, rollback c) | None \<Rightarrow>
   (case M id_param of
      None \<Rightarrow> (Reply 404 AdministradorNoEncontrado, rollback c)
    | Some i \<Rightarrow>
   (case find_administrador (working c) i of
      None \<Rightarrow> (Reply 404 AdministradorNoEncontrado, rollback c)
    | Some admin \<Rightarrow>
       (if a_estado admin = ''inactivo''
          then (Reply 404 AdministradorNoEncontradoOYaInactivo, rollback c)
        else
       (case (if rol admin = ''Coordinador'' then flt (Query 2) else None) of
          Some e \<Rightarrow> (Reply 500 ErrorInterno, rollback c)
        | None \<Rightarrow>
           (let c1 = (if rol admin = ''Coordinador''
                      then query (delete_asignaciones_de_admin i) c else c)
            in
            case flt (Query 3) of
              Some e \<Rightarrow> (Reply 500 ErrorInterno, rollback c1)
            | None \<Rightarrow>
               (let affectedRows = affected_administrador i (working c1);
                    c2 = query (soft_delete_administrador now (u_id u) i) c1
                in
                if affectedRows = 0
                  then (Reply 404 AdministradorNoSePudoMarcarInactivo, rollback c2)
                else
               (case flt Commit of
                  Some e \<Rightarrow> (Reply 500 ErrorInterno, rollback c2)
                | None \<Rightarrow> (Reply 200 (AdministradorEliminado id_param), commit c2)))))))))))))"

section \<open>Public authentication routes\<close>

text \<open>The body of a successful registration.\<close>

record registro =
  r_id_administrador :: ident
  r_nombre_administrador :: string
  r_rol :: string
  r_token :: token

text \<open>\<open>registerUser\<close>, \<open>POST /api/auth/register\<close>, with no middleware before it.
  \<open>Query 1\<close> is the INSERT.\<close>

definition registerUser ::
  "fault \<Rightarrow> timestamp \<Rightarrow> nuevo_usuario_body \<Rightarrow> db \<Rightarrow> (reply + registro) \<times> db" where
  "registerUser flt now b d =
     (if \<not> truthy (n_nombre_administrador b) \<or> \<not> truthy (n_contrasena b)
        then (Inl (Reply 400 FaltanNombreOContrasena), d)
      else
       (let contrasena_hash = Bcrypt (the (n_contrasena b));
            rol_final = or_else (n_rol b) ''Rector''
        in
       (case flt (Query 1) of
          Some e \<Rightarrow>
            (Inl (if e = ER_DUP_ENTRY then Reply 400 YaRegistrado else Reply 500 ErrorInterno), d)
        | None \<Rightarrow>
           (let (d', insertId) =
              insert_administrador (the (n_nombre_administrador b)) (field_or_null (n_email b))
                contrasena_hash (field_or_null (n_dni b)) (field_or_null (n_telefono b)) rol_final d
            in (Inr \<lparr>r_id_administrador = insertId,
                     r_nombre_administrador = the (n_nombre_administrador b),
                     r_rol = rol_final,
                     r_token = generateToken now insertId rol_final\<rparr>, d')))))"

text \<open>
  \<open>resetPassword\<close>, \<open>POST /api/auth/reset-password\<close>. \<open>Query 1\<close> is the UPDATE of the
  credential; whatever is thrown inside the \<open>try\<close> is answered with 401.
\<close>

definition resetPassword ::
  "fault \<Rightarrow> timestamp \<Rightarrow> token option \<Rightarrow> jsstring option \<Rightarrow> db \<Rightarrow> reply \<times> db" where
  "resetPassword flt now tok newPassword d =
     (if tok = None \<or> \<not> truthy newPassword then (Reply 400 FaltanTokenONuevaContrasena, d)
      else
     (case jwt_verify now (the tok) RESET_SECRET of
        None \<Rightarrow> (Reply 401 EnlaceInvalidoOExpirado, d)
      | Some decoded \<Rightarrow>
         (let hashedPassword = Bcrypt (the newPassword) in
          case flt (Query 1) of
            Some e \<Rightarrow> (Reply 401 EnlaceInvalidoOExpirado, d)
          | None \<Rightarrow>
             (case decoded of
                SessionPayload i r \<Rightarrow> (Reply 404 EnlaceInvalido, d)
              | ResetPayload adminId \<Rightarrow>
                 (if affected_administrador adminId d = 0 then (Reply 404 EnlaceInvalido, d)
                  else (Reply 200 ContrasenaRestablecida,
                        update_administrador [SetContrasena hashedPassword] adminId d))))))"

section \<open>Careers\<close>

text \<open>The body of \<open>PUT /carreras/:id\<close>.\<close>

record carrera_body =
  cb_nombre_carrera :: "string option"
  cb_duracion :: "nat option"
  cb_modalidad :: "string option"
  cb_anio_aprobacion :: "nat option"
  cb_id_coordinador :: "ident option"
  cb_estado :: "string option"

text \<open>\<open>UPDATE carrera SET nombre_carrera = ?, ... [, estado = ? [, audit fields]] WHERE
  id_carrera = ?\<close>, on one row and on the table.\<close>

definition set_carrera :: "timestamp \<Rightarrow> ident \<Rightarrow> carrera_body \<Rightarrow> carrera \<Rightarrow> carrera" where
  "set_carrera now idAdmin b c =
     (let c1 = c\<lparr>nombre_carrera := the (cb_nombre_carrera b), duracion := the (cb_duracion b),
                 c_modalidad := the (cb_modalidad b), anio_aprobacion := the (cb_anio_aprobacion b)\<rparr>
      in
      if truthy (cb_estado b) then
        (let e = the (cb_estado b); c2 = c1\<lparr>c_estado := e\<rparr> in
         if e = ''cerrada'' \<or> e = ''inactiva''
           then c2\<lparr>c_fecha_eliminacion := Some now, c_id_administrador_eliminacion := Some idAdmin\<rparr>
         else if e = ''activa''
           then c2\<lparr>c_fecha_eliminacion := None, c_id_administrador_eliminacion := None\<rparr>
         else c2)
      else c1)"

definition update_carrera :: "timestamp \<Rightarrow> ident \<Rightarrow> ident \<Rightarrow> carrera_body \<Rightarrow> db \<Rightarrow> db" where
  "update_carrera now idAdmin i b d =
     d\<lparr>carreras := map (\<lambda>c. if id_carrera c = i then set_carrera now idAdmin b c else c) (carreras d)\<rparr>"

text \<open>\<open>DELETE FROM admin_carrera WHERE id_carrera = ?\<close> and
  \<open>INSERT INTO admin_carrera (id_administrador, id_carrera) VALUES (?, ?)\<close>\<close>

definition delete_asignaciones_de_carrera :: "ident \<Rightarrow> db \<Rightarrow> db" where
  "delete_asignaciones_de_carrera i d =
     d\<lparr>admin_carrera := filter (\<lambda>ac. snd ac \<noteq> i) (admin_carrera d)\<rparr>"

definition insert_admin_carrera :: "ident \<Rightarrow> ident \<Rightarrow> db \<Rightarrow> db" where
  "insert_admin_carrera idAdmin i d = d\<lparr>admin_carrera := admin_carrera d @ [(idAdmin, i)]\<rparr>"

text \<open>
  The transaction of \<open>updateCarrera\<close>. \<open>Query 2\<close> is the UPDATE of the career, \<open>Query 3\<close>
  the DELETE of its assignments, \<open>Query 4\<close> the INSERT of the new one, \<open>Query 5\<close> the
  SELECT that tells a career not found from one found; that SELECT, and the rollback
  before it, come after the commit.
\<close>

definition updateCarrera_tx ::
  "fault \<Rightarrow> timestamp \<Rightarrow> user \<Rightarrow> ident \<Rightarrow> carrera_body \<Rightarrow> db \<Rightarrow> reply \<times> db" where
  "updateCarrera_tx flt now u i b d =
   (case flt GetConnection of Some e \<Rightarrow> (Reply 500 ErrorInterno, d) | None \<Rightarrow>
   (case flt BeginTransaction of Some e \<Rightarrow> (Reply 500 ErrorInterno, d) | None \<Rightarrow>
   (let c = beginTransaction d in
   (case flt (Query 2) of Some e \<Rightarrow> (Reply 500 ErrorInterno, rollback c) | None \<Rightarrow>
   (let affectedRows = length (filter (\<lambda>x. id_carrera x = i) (carreras (working c)));
        c1 = query (update_carrera now (u_id u) i b) c
    in
   (case flt (Query 3) of Some e \<Rightarrow> (Reply 500 ErrorInterno, rollback c1) | None \<Rightarrow>
   (let c2 = query (delete_asignaciones_de_carrera i) c1 in
   (case (if truthy_num (cb_id_coordinador b) then flt (Query 4) else None) of
      Some e \<Rightarrow> (Reply 500 ErrorInterno, rollback c2)
    | None \<Rightarrow>
   (let c3 = (if truthy_num (cb_id_coordinador b)
              then query (insert_admin_carrera (the (cb_id_coordinador b)) i) c2 else c2)
    in
   (case flt Commit of Some e \<Rightarrow> (Reply 500 ErrorInterno, rollback c3) | None \<Rightarrow>
   (let d' = commit c3 in
    if affectedRows = 0 then
      (case flt (Query 5) of
         Some e \<Rightarrow> (Reply 500 ErrorInterno, d')
       | None \<Rightarrow>
           if filter (\<lambda>x. id_carrera x = i) (carreras d') = []
             then (Reply 404 CarreraNoEncontrada, d')
             else (Reply 200 CarreraActualizadaSinCambios, d'))
    else (Reply 200 CarreraActualizada, d'))))))))))))"

text \<open>\<open>updateCarrera\<close>. \<open>Query 1\<close> is the SELECT of the assignment of a Coordinador.\<close>

definition updateCarrera ::
  "fault \<Rightarrow> timestamp \<Rightarrow> user \<Rightarrow> ident \<Rightarrow> carrera_body \<Rightarrow> db \<Rightarrow> reply \<times> db" where
  "updateCarrera flt now u i b d =
     (if \<not> truthy (cb_nombre_carrera b) \<or> \<not> truthy_num (cb_duracion b)
         \<or> \<not> truthy (cb_modalidad b) \<or> \<not> truthy_num (cb_anio_aprobacion b)
        then (Reply 400 FaltanCamposCarrera, d)
      else if truthy (cb_estado b) \<and> the (cb_estado b) \<noteq> ''activa''
              \<and> the (cb_estado b) \<noteq> ''cerrada'' \<and> the (cb_estado b) \<noteq> ''inactiva''
        then (Reply 400 EstadoCarreraInvalido, d)
      else if truthy (cb_estado b) \<and> (the (cb_estado b) = ''cerrada'' \<or> the (cb_estado b) = ''inactiva'')
              \<and> u_rol u \<noteq> ''Rector''
        then (Reply 403 SoloRectorCierraCarrera, d)
      else
       (case (if u_rol u = ''Coordinador'' then flt (Query 1) else None) of
          Some e \<Rightarrow> (Reply 500 ErrorInterno, d)
        | None \<Rightarrow>
            if u_rol u = ''Coordinador'' \<and> (u_id u, i) \<notin> set (admin_carrera d)
              then (Reply 403 SoloCarrerasAsignadas, d)
            else updateCarrera_tx flt now u i b d))"

text \<open>
  \<open>deleteCarrera\<close>. \<open>Query 1\<close> is the UPDATE that marks the career inactive unless it
  already is, \<open>Query 2\<close> the SELECT after a rollback that tells not found from already
  inactive, \<open>Query 3\<close> the DELETE of the assignments.
\<close>

definition soft_delete_carrera :: "timestamp \<Rightarrow> ident \<Rightarrow> ident \<Rightarrow> db \<Rightarrow> db" where
  "soft_delete_carrera now idAdmin i d =
     d\<lparr>carreras := map (\<lambda>c. if id_carrera c = i \<and> c_estado c \<noteq> ''inactiva''
                              then c\<lparr>c_estado := ''inactiva'', c_fecha_eliminacion := Some now,
                                     c_id_administrador_eliminacion := Some idAdmin\<rparr>
                              else c) (carreras d)\<rparr>"

definition deleteCarrera :: "fault \<Rightarrow> timestamp \<Rightarrow> user \<Rightarrow> ident \<Rightarrow> db \<Rightarrow> reply \<times> db" where
  "deleteCarrera flt now u i d =
   (if u_rol u \<noteq> ''Rector'' then (Reply 403 SoloRectorEliminaCarrera, d)
    else
   (case flt GetConnection of Some e \<Rightarrow> (Reply 500 ErrorInterno, d) | None \<Rightarrow>
   (case flt BeginTransaction of Some e \<Rightarrow> (Reply 500 ErrorInterno, d) | None \<Rightarrow>
   (let c = beginTransaction d in
   (case flt (Query 1) of Some e \<Rightarrow> (Reply 500 ErrorInterno, rollback c) | None \<Rightarrow>
   (let affectedRows = length (filter (\<lambda>x. id_carrera x = i \<and> c_estado x \<noteq> ''inactiva'')
                                 (carreras (working c)));
        c1 = query (soft_delete_carrera now (u_id u) i) c
    in
    if affectedRows = 0 then
      (case flt (Query 2) of
         Some e \<Rightarrow> (Reply 500 ErrorInterno, rollback c1)
       | None \<Rightarrow>
           if filter (\<lambda>x. id_carrera x = i) (carreras (rollback c1)) = []
             then (Reply 404 CarreraNoEncontrada, rollback c1)
             else (Reply 400 CarreraYaInactiva, rollback c1))
    else
     (case flt (Query 3) of Some e \<Rightarrow> (Reply 500 ErrorInterno, rollback c1) | None \<Rightarrow>
     (let c2 = query (delete_asignaciones_de_carrera i) c1 in
     (case flt Commit of
        Some e \<Rightarrow> (Reply 500 ErrorInterno, rollback c2)
      | None \<Rightarrow> (Reply 200 CarreraEliminada, commit c2))))))))))"

section \<open>Soft deletes of subjects, slots and prerequisite edges\<close>

text \<open>These three run on the pool, one statement at a time, with no transaction.\<close>

text \<open>
  \<open>checkMateriaAccess\<close>: whether the subject, in state \<open>'activo'\<close>, belongs to a career
  assigned to the administrator, who is active or suspended.
\<close>

definition checkMateriaAccess :: "db \<Rightarrow> ident \<Rightarrow> ident \<Rightarrow> bool" where
  "checkMateriaAccess d idMateria idAdministrador =
     list_ex (\<lambda>m. id_materia m = idMateria \<and> m_estado m = ''activo''
        \<and> list_ex (\<lambda>ac. snd ac = m_id_carrera m \<and> fst ac = idAdministrador
             \<and> list_ex (\<lambda>a. id_administrador a = fst ac
                            \<and> (a_estado a = ''activo'' \<or> a_estado a = ''suspendido''))
                  (administradores d))
            (admin_carrera d))
       (materias d)"

definition soft_delete_materia :: "timestamp \<Rightarrow> ident \<Rightarrow> ident \<Rightarrow> db \<Rightarrow> db" where
  "soft_delete_materia now idAdmin i d =
     d\<lparr>materias := map (\<lambda>m. if id_materia m = i
                              then m\<lparr>m_estado := ''inactiva'', m_fecha_eliminacion := Some now,
                                     m_id_administrador_eliminacion := Some idAdmin\<rparr>
                              else m) (materias d)\<rparr>"

text \<open>
  \<open>deleteMateria\<close>. \<open>Query 1\<close> is the SELECT of the subject, \<open>Query 2\<close> the UPDATE. A
  Coordinador without the list of careers makes \<open>.map\<close> throw, which the \<open>catch\<close>
  answers with 500.
\<close>

definition deleteMateria :: "fault \<Rightarrow> timestamp \<Rightarrow> user \<Rightarrow> ident \<Rightarrow> db \<Rightarrow> reply \<times> db" where
  "deleteMateria flt now u i d =
   (case flt (Query 1) of Some e \<Rightarrow> (Reply 500 ErrorInterno, d) | None \<Rightarrow>
   (case filter (\<lambda>m. id_materia m = i) (materias d) of
      [] \<Rightarrow> (Reply 404 MateriaNoEncontrada, d)
    | m # ms \<Rightarrow>
       (if m_estado m = ''inactiva'' then (Reply 400 MateriaYaInactiva, d)
        else if u_rol u = ''Coordinador'' \<and> carreras_a_cargo_ids u = None
          then (Reply 500 ErrorInterno, d)
        else if u_rol u = ''Coordinador'' \<and> m_id_carrera m \<notin> set (the (carreras_a_cargo_ids u))
          then (Reply 403 SoloMateriasDeSusCarreras, d)
        else if u_rol u \<noteq> ''Coordinador'' \<and> u_rol u \<noteq> ''Rector''
          then (Reply 403 RolNoAutorizado, d)
        else
         (case flt (Query 2) of Some e \<Rightarrow> (Reply 500 ErrorInterno, d) | None \<Rightarrow>
            if length (filter (\<lambda>m. id_materia m = i) (materias d)) = 0
              then (Reply 404 MateriaNoEncontradaParaBaja, d)
              else (Reply 200 MateriaDadaDeBaja, soft_delete_materia now (u_id u) i d)))))"

definition soft_delete_horario :: "timestamp \<Rightarrow> ident \<Rightarrow> ident \<Rightarrow> db \<Rightarrow> db" where
  "soft_delete_horario now idAdmin i d =
     d\<lparr>horarios := map (\<lambda>h. if id_horario h = i \<and> h_estado h = ''activa''
                              then h\<lparr>h_estado := ''inactiva'', h_fecha_eliminacion := Some now,
                                     h_id_administrador_eliminacion := Some idAdmin\<rparr>
                              else h) (horarios d)\<rparr>"

text \<open>\<open>deleteHorario\<close>. \<open>Query 1\<close> is the SELECT of the slot, \<open>Query 2\<close> the SELECT of
  \<open>checkMateriaAccess\<close>, \<open>Query 3\<close> the UPDATE, which only touches a slot in state
  \<open>'activa'\<close>.\<close>

definition deleteHorario :: "fault \<Rightarrow> timestamp \<Rightarrow> user \<Rightarrow> ident \<Rightarrow> db \<Rightarrow> reply \<times> db" where
  "deleteHorario flt now u i d =
   (case flt (Query 1) of Some e \<Rightarrow> (Reply 500 ErrorInterno, d) | None \<Rightarrow>
   (case filter (\<lambda>h. id_horario h = i) (horarios d) of
      [] \<Rightarrow> (Reply 404 HorarioNoEncontrado, d)
    | h # hs \<Rightarrow>
       (if h_estado h = ''inactiva'' then (Reply 400 HorarioYaInactivo, d)
        else if u_rol u = ''Coordinador'' \<and> flt (Query 2) \<noteq> None
          then (Reply 500 ErrorInterno, d)
        else if u_rol u = ''Coordinador'' \<and> \<not> checkMateriaAccess d (h_id_materia h) (u_id u)
          then (Reply 403 NoCoordinaLaCarrera, d)
        else if u_rol u \<noteq> ''Coordinador'' \<and> u_rol u \<noteq> ''Rector''
          then (Reply 403 PermisosInsuficientes, d)
        else
         (case flt (Query 3) of Some e \<Rightarrow> (Reply 500 ErrorInterno, d) | None \<Rightarrow>
            if length (filter (\<lambda>h. id_horario h = i \<and> h_estado h = ''activa'') (horarios d)) = 0
              then (Reply 404 HorarioNoEncontradoParaBaja, d)
              else (Reply 200 HorarioDadoDeBaja, soft_delete_horario now (u_id u) i d)))))"

definition soft_delete_correlatividad :: "timestamp \<Rightarrow> ident \<Rightarrow> ident \<Rightarrow> db \<Rightarrow> db" where
  "soft_delete_correlatividad now idAdmin i d =
     d\<lparr>correlatividades := map (\<lambda>k. if id_correlatividad k = i
                              then k\<lparr>k_estado := ''inactiva'', k_fecha_eliminacion := Some now,
                                     k_id_administrador_eliminacion := Some idAdmin\<rparr>
                              else k) (correlatividades d)\<rparr>"

text \<open>\<open>deleteCorrelatividad\<close>. \<open>Query 1\<close> is the SELECT of the edge, \<open>Query 2\<close> the SELECT
  of \<open>checkMateriaAccess\<close>, \<open>Query 3\<close> the UPDATE.\<close>

definition deleteCorrelatividad :: "fault \<Rightarrow> timestamp \<Rightarrow> user \<Rightarrow> ident \<Rightarrow> db \<Rightarrow> reply \<times> db" where
  "deleteCorrelatividad flt now u i d =
   (case flt (Query 1) of Some e \<Rightarrow> (Reply 500 ErrorInterno, d) | None \<Rightarrow>
   (case filter (\<lambda>k. id_correlatividad k = i) (correlatividades d) of
      [] \<Rightarrow> (Reply 404 CorrelatividadNoEncontrada, d)
    | k # ks \<Rightarrow>
       (if k_estado k = ''inactiva'' then (Reply 400 CorrelatividadYaInactiva, d)
        else if u_rol u = ''Coordinador'' \<and> flt (Query 2) \<noteq> None
          then (Reply 500 ErrorInterno, d)
        else if u_rol u = ''Coordinador'' \<and> \<not> checkMateriaAccess d (id_materia_principal k) (u_id u)
          then (Reply 403 NoCoordinaLaCarrera, d)
        else if u_rol u \<noteq> ''Coordinador'' \<and> u_rol u \<noteq> ''Rector''
          then (Reply 403 PermisosInsuficientes, d)
        else
         (case flt (Query 3) of Some e \<Rightarrow> (Reply 500 ErrorInterno, d) | None \<Rightarrow>
            if length (filter (\<lambda>k. id_correlatividad k = i) (correlatividades d)) = 0
              then (Reply 404 CorrelatividadNoEncontradaParaBaja, d)
              else (Reply 200 CorrelatividadDadaDeBaja, soft_delete_correlatividad now (u_id u) i d)))))"

section \<open>The \<open>protect\<close> middleware\<close>

text \<open>\<open>SELECT id_carrera FROM admin_carrera WHERE id_administrador = ?\<close>\<close>

definition carreras_de_admin :: "db \<Rightarrow> ident \<Rightarrow> ident list" where
  "carreras_de_admin d i = map snd (filter (\<lambda>ac. fst ac = i) (admin_carrera d))"

text \<open>
  \<open>protect\<close>: the bearer token of the request (if any) is verified, the administrator is
  read, an account that is not active is refused, and the careers of a Coordinador are
  attached. \<open>Query 1\<close> reads the administrator, \<open>Query 2\<close> the assignments; anything thrown
  is answered 401.
\<close>

definition protect :: "fault \<Rightarrow> timestamp \<Rightarrow> token option \<Rightarrow> db \<Rightarrow> reply + user" where
  "protect flt now authorization d =
     (case authorization of
        None \<Rightarrow> Inl (Reply 401 NoAutorizadoNoHayToken)
      | Some tok \<Rightarrow>
         (case jwt_verify now tok JWT_SECRET of
            None \<Rightarrow> Inl (Reply 401 NoAutorizadoTokenInvalido)
          | Some decoded \<Rightarrow>
             (case flt (Query 1) of
                Some e \<Rightarrow> Inl (Reply 401 NoAutorizadoTokenInvalido)
              | None \<Rightarrow>
                 (case (case decoded of SessionPayload idAdmin r \<Rightarrow> find_administrador d idAdmin
                                      | ResetPayload i \<Rightarrow> None) of
                    None \<Rightarrow> Inl (Reply 401 NoAutorizadoAdministradorNoEncontrado)
                  | Some a \<Rightarrow>
                     (if a_estado a \<noteq> ''activo'' then Inl (Reply 403 (CuentaNoActiva (a_estado a)))
                      else if rol a = ''Coordinador'' then
                        (case flt (Query 2) of
                           Some e \<Rightarrow> Inl (Reply 401 NoAutorizadoTokenInvalido)
                         | None \<Rightarrow>
                             Inr \<lparr>u_id = id_administrador a, u_rol = rol a,
                                  carreras_a_cargo_ids =
                                    Some (carreras_de_admin d (id_administrador a))\<rparr>)
                      else Inr \<lparr>u_id = id_administrador a, u_rol = rol a,
                                carreras_a_cargo_ids = None\<rparr>)))))"

section \<open>Read operations of the administration routes\<close>

text \<open>
  A read answers an error or the rows selected. The rows come in table order: ORDER BY
  permutes them and is not modelled. \<open>Query 1\<close> is the SELECT of each read.
\<close>

text \<open>
  \<open>getCarreras\<close>. A row is the career with \<open>nombre_coordinador\<close> from the two LEFT JOINs
  (a career with no assignment, or an assignment to somebody who is not a Coordinador,
  gives NULL); DISTINCT removes repeated rows.
\<close>

definition coordinadores_de_carrera :: "db \<Rightarrow> carrera \<Rightarrow> (carrera \<times> string option) list" where
  "coordinadores_de_carrera d c =
     (let acs = filter (\<lambda>ac. snd ac = id_carrera c) (admin_carrera d) in
      if acs = [] then [(c, None)]
      else concat (map (\<lambda>ac.
             (let coords = filter (\<lambda>a. id_administrador a = fst ac \<and> rol a = ''Coordinador'')
                             (administradores d)
              in if coords = [] then [(c, None)]
                 else map (\<lambda>a. (c, Some (nombre_administrador a))) coords)) acs))"

definition getCarreras :: "fault \<Rightarrow> user \<Rightarrow> db \<Rightarrow> reply + (carrera \<times> string option) list" where
  "getCarreras flt u d =
     (let estadoFilter = (\<lambda>c. if u_rol u = ''Coordinador'' then c_estado c = ''activa''
                               else c_estado c = ''activa'' \<or> c_estado c = ''cerrada'');
          permiso = (\<lambda>c. if u_rol u = ''Coordinador''
                          then id_carrera c \<in> set (carreras_de_admin d (u_id u)) else True)
      in
      if u_rol u \<noteq> ''Coordinador'' \<and> u_rol u \<noteq> ''Rector'' then Inl (Reply 403 PermisosInsuficientes)
      else
       (case flt (Query 1) of
          Some e \<Rightarrow> Inl (Reply 500 ErrorInterno)
        | None \<Rightarrow>
            Inr (remdups (concat (map (coordinadores_de_carrera d)
                   (filter (\<lambda>c. estadoFilter c \<and> permiso c) (carreras d)))))))"

text \<open>\<open>getMateriasAll\<close>, with the optional filter \<open>id_carrera\<close> of the query string.\<close>

definition getMateriasAll :: "fault \<Rightarrow> user \<Rightarrow> ident option \<Rightarrow> db \<Rightarrow> reply + materia list" where
  "getMateriasAll flt u id_carrera_query d =
     (let filtro = (\<lambda>m. case id_carrera_query of None \<Rightarrow> True | Some q \<Rightarrow> m_id_carrera m = q);
          run = (\<lambda>wh. case flt (Query 1) of
                         Some e \<Rightarrow> Inl (Reply 500 ErrorInterno)
                       | None \<Rightarrow> Inr (filter (\<lambda>m. wh m \<and> filtro m \<and> m_estado m = ''activa'') (materias d)))
      in
      if u_rol u = ''Coordinador'' then
        (case carreras_a_cargo_ids u of
           None \<Rightarrow> Inr []
         | Some carrerasIds \<Rightarrow>
             if carrerasIds = [] then Inr []
             else run (\<lambda>m. m_id_carrera m \<in> set carrerasIds))
      else if u_rol u = ''Rector'' then run (\<lambda>m. True)
      else Inl (Reply 403 RolNoAutorizado))"

text \<open>\<open>getMateriaById\<close> of the administration routes: \<open>materia[0]\<close> or 404.\<close>

definition getMateriaById :: "fault \<Rightarrow> user \<Rightarrow> ident \<Rightarrow> db \<Rightarrow> reply + materia" where
  "getMateriaById flt u i d =
     (let run = (\<lambda>wh. case flt (Query 1) of
                         Some e \<Rightarrow> Inl (Reply 500 ErrorInterno)
                       | None \<Rightarrow>
                          (case filter (\<lambda>m. id_materia m = i \<and> m_estado m = ''activa'' \<and> wh m) (materias d) of
                             [] \<Rightarrow> Inl (Reply 404 MateriaNoEncontradaOAccesoDenegado)
                           | m # ms \<Rightarrow> Inr m))
      in
      if u_rol u = ''Coordinador'' then
        (case carreras_a_cargo_ids u of
           None \<Rightarrow> Inl (Reply 403 CoordinadorSinCarreras)
         | Some carrerasIds \<Rightarrow>
             if carrerasIds = [] then Inl (Reply 403 CoordinadorSinCarreras)
             else run (\<lambda>m. m_id_carrera m \<in> set carrerasIds))
      else run (\<lambda>m. True))"

text \<open>
  \<open>getHorariosPorMateria\<close>: the slots of one subject, joined with the subject and its
  career. A row is the slot with \<open>nombre_materia\<close>.
\<close>

definition getHorariosPorMateria ::
  "fault \<Rightarrow> user \<Rightarrow> ident option \<Rightarrow> db \<Rightarrow> reply + (horario \<times> string) list" where
  "getHorariosPorMateria flt u idMateria d =
     (case idMateria of
        None \<Rightarrow> Inr []
      | Some im \<Rightarrow>
         (if u_rol u \<noteq> ''Coordinador'' \<and> u_rol u \<noteq> ''Rector'' then Inl (Reply 403 PermisosInsuficientes)
          else
           (case flt (Query 1) of
              Some e \<Rightarrow> Inl (Reply 500 ErrorInterno)
            | None \<Rightarrow>
                Inr (concat (map (\<lambda>h.
                       concat (map (\<lambda>m.
                         map (\<lambda>c. (h, nombre_materia m))
                           (filter (\<lambda>c. id_carrera c = m_id_carrera m
                                        \<and> (u_rol u = ''Coordinador'' \<longrightarrow>
                                             id_carrera c \<in> set (carreras_de_admin d (u_id u))))
                              (carreras d)))
                         (filter (\<lambda>m. id_materia m = h_id_materia h) (materias d))))
                     (filter (\<lambda>h. h_id_materia h = im \<and> h_estado h = ''activa'') (horarios d)))))))"

text \<open>\<open>getHorarioById\<close>: no role is looked at.\<close>

definition getHorarioById :: "fault \<Rightarrow> ident \<Rightarrow> db \<Rightarrow> reply + horario" where
  "getHorarioById flt i d =
     (case flt (Query 1) of
        Some e \<Rightarrow> Inl (Reply 500 ErrorInterno)
      | None \<Rightarrow>
         (case filter (\<lambda>h. id_horario h = i \<and> h_estado h = ''activa'') (horarios d) of
            [] \<Rightarrow> Inl (Reply 404 HorarioNoEncontradoOInactiva)
          | h # hs \<Rightarrow> Inr h))"

text \<open>
  \<open>getCorrelatividadesPorMateria\<close>: the edges of one principal subject, joined with the
  principal and the required subject. A row is the edge with the two names.
\<close>

definition getCorrelatividadesPorMateria ::
  "fault \<Rightarrow> user \<Rightarrow> ident option \<Rightarrow> db \<Rightarrow> reply + (correlatividad \<times> string \<times> string) list" where
  "getCorrelatividadesPorMateria flt u id_principal d =
     (case id_principal of
        None \<Rightarrow> Inl (Reply 400 IdMateriaPrincipalObligatorio)
      | Some ip \<Rightarrow>
         (if u_rol u \<noteq> ''Coordinador'' \<and> u_rol u \<noteq> ''Rector'' then Inl (Reply 403 PermisosInsuficientes)
          else
           (case flt (Query 1) of
              Some e \<Rightarrow> Inl (Reply 500 ErrorInterno)
            | None \<Rightarrow>
                Inr (concat (map (\<lambda>k.
                       concat (map (\<lambda>mp.
                         map (\<lambda>mr. (k, nombre_materia mp, nombre_materia mr))
                           (filter (\<lambda>mr. id_materia mr = id_materia_requisito k) (materias d)))
                         (filter (\<lambda>mp. id_materia mp = id_materia_principal k
                                      \<and> (u_rol u = ''Coordinador'' \<longrightarrow>
                                           m_id_carrera mp \<in> set (carreras_de_admin d (u_id u))))
                            (materias d))))
                     (filter (\<lambda>k. id_materia_principal k = ip \<and> k_estado k = ''activa'')
                        (correlatividades d)))))))"

text \<open>\<open>getCorrelatividadById\<close>. \<open>Query 2\<close> is the SELECT of \<open>checkMateriaAccess\<close>.\<close>

definition getCorrelatividadById :: "fault \<Rightarrow> user \<Rightarrow> ident \<Rightarrow> db \<Rightarrow> reply + correlatividad" where
  "getCorrelatividadById flt u i d =
     (case flt (Query 1) of
        Some e \<Rightarrow> Inl (Reply 500 ErrorInterno)
      | None \<Rightarrow>
         (case concat (map (\<lambda>k. map (\<lambda>mp. k)
                                (filter (\<lambda>mp. id_materia mp = id_materia_principal k) (materias d)))
                 (filter (\<lambda>k. id_correlatividad k = i \<and> k_estado k = ''activa'') (correlatividades d))) of
            [] \<Rightarrow> Inl (Reply 404 CorrelatividadNoEncontradaOInactiva)
          | k # ks \<Rightarrow>
             (if u_rol u = ''Coordinador'' then
                (case flt (Query 2) of
                   Some e \<Rightarrow> Inl (Reply 500 ErrorInterno)
                 | None \<Rightarrow>
                     if \<not> checkMateriaAccess d (id_materia_principal k) (u_id u)
                       then Inl (Reply 403 NoCoordinaLaCarrera)
                     else Inr k)
              else if u_rol u \<noteq> ''Rector'' then Inl (Reply 403 PermisosInsuficientes)
              else Inr k)))"

section \<open>Read operations of the public routes\<close>

text \<open>\<open>getHorariosByMateria\<close> of the public controller: day, start and end of the active
  slots of a subject.\<close>

definition getHorariosByMateria ::
  "fault \<Rightarrow> ident option \<Rightarrow> db \<Rightarrow> reply + (string \<times> string \<times> string) list" where
  "getHorariosByMateria flt id_materia_query d =
     (case id_materia_query of
        None \<Rightarrow> Inl (Reply 400 FaltaParametroIdMateria)
      | Some im \<Rightarrow>
         (case flt (Query 1) of
            Some e \<Rightarrow> Inl (Reply 500 ErrorInterno)
          | None \<Rightarrow>
              Inr (map (\<lambda>h. (dia_semana h, hora_inicio h, hora_fin h))
                     (filter (\<lambda>h. h_id_materia h = im \<and> h_estado h = ''activa'') (horarios d)))))"

section \<open>Curriculum layout\<close>

text \<open>
  A subject as \<open>fetchPlanData\<close> hands it to the layout: the cells as the strings
  \<open>String(...)\<close> gives (empty for \<open>null\<close>), and the three lists of required subjects.
\<close>

record materia_plan =
  p_id_materia :: jsstring
  p_campo_formacion :: jsstring
  p_nombre_materia :: jsstring
  p_formato :: jsstring
  p_modalidad :: jsstring
  p_horas_semanales :: jsstring
  p_total_horas_anuales :: jsstring
  p_acreditacion :: jsstring
  cursarAprobada :: "jsstring list"
  cursarRegular :: "jsstring list"
  rendirAprobada :: "jsstring list"

text \<open>One entry of \<open>materiasPorAnio\<close>, with the label \<open>getAnioText\<close> gives and the year's
  sum of hours.\<close>

record anio_plan =
  anioText :: jsstring
  materias_del_anio :: "materia_plan list"
  totalHorasAnuales :: jsstring

text \<open>
  PDFKit is outside the repository. Its document is the vertical cursor \<open>doc.y\<close> and the
  current font (bold or not, size). What PDFKit measures is a parameter: the number of
  lines a string wraps to in a font within a width, the height of a line of a font
  (\<open>currentLineHeight(true)\<close>), and the height of the page. Lengths are exact real
  numbers: the rounding of JavaScript doubles is not modelled. Every page has the margin
  30, so \<open>addPage\<close> puts the cursor at 30 and text may go down to the height of the page
  less 30.
\<close>

type_synonym font = "bool \<times> nat"

record pdfkit =
  lines_of :: "font \<Rightarrow> jsstring \<Rightarrow> real \<Rightarrow> nat"
  currentLineHeight :: "font \<Rightarrow> real"
  page_height :: real

record document =
  doc_y :: real
  doc_font :: font

text \<open>What the layout does, in order: a page break, or a row of cells whose first
  rectangle is drawn at a vertical position with a height. The page breaks PDFKit makes
  while the cells of a row are written come after the row.\<close>

datatype kind = AnioHeader | ColumnHeader | MateriaRow jsstring | TotalAnual | TotalCarrera

datatype event = AddPage | Draw (kind_of: kind) (pos_y: real) (height_of: real)

definition COL_WIDTHS :: "real list" where
  "COL_WIDTHS = [30, 50, 160, 60, 60, 50, 60, 80, 80, 70, 90]"

definition TOTAL_TABLE_WIDTH :: real where
  "TOTAL_TABLE_WIDTH = foldl (\<lambda>sum w. sum + w) 0 COL_WIDTHS"

text \<open>\<open>xs.join(', ')\<close> and \<open>s || 'N/D'\<close>.\<close>

fun join :: "jsstring list \<Rightarrow> jsstring" where
  "join [] = []"
| "join [x] = x"
| "join (x # y # ys) = x @ [44, 32] @ join (y # ys)"

definition or_ND :: "jsstring \<Rightarrow> jsstring" where
  "or_ND s = (if s = [] then [78, 47, 68] else s)"

definition maxY :: "pdfkit \<Rightarrow> real" where
  "maxY K = page_height K - 30"

definition addPage :: "document \<Rightarrow> document" where
  "addPage doc = doc\<lparr>doc_y := 30\<rparr>"

definition moveDown :: "pdfkit \<Rightarrow> real \<Rightarrow> document \<Rightarrow> document" where
  "moveDown K lines doc = doc\<lparr>doc_y := doc_y doc + currentLineHeight K (doc_font doc) * lines\<rparr>"

text \<open>\<open>doc.heightOfString(s, {width, lineGap})\<close> in a font: every line takes the height
  of a line and the gap. Nothing is drawn and no page is added.\<close>

definition heightOfString :: "pdfkit \<Rightarrow> font \<Rightarrow> jsstring \<Rightarrow> real \<Rightarrow> real \<Rightarrow> real" where
  "heightOfString K f s width lineGap = real (lines_of K f s width) * (currentLineHeight K f + lineGap)"

text \<open>
  \<open>doc.text(s, x, y, {width, lineGap})\<close> in a font. The cursor is put at \<open>y\<close>. PDFKit's
  line wrapper starts a new page before the first line when a line at the cursor would
  end below the bottom margin, and again between two lines when the next one would; this
  check comes before any line, so it is made for an empty string too. Every line
  written moves the cursor down by the height of a line and the gap.
\<close>

fun emit_lines :: "pdfkit \<Rightarrow> font \<Rightarrow> real \<Rightarrow> nat \<Rightarrow> document \<Rightarrow> event list \<times> document" where
  "emit_lines K f lineGap 0 doc = ([], doc)"
| "emit_lines K f lineGap (Suc n) doc =
     (let doc1 = doc\<lparr>doc_y := doc_y doc + currentLineHeight K f + lineGap\<rparr> in
      if n = 0 then ([], doc1)
      else
       (let (ev, doc2) = (if doc_y doc1 + currentLineHeight K f > maxY K
                          then ([AddPage], addPage doc1) else ([], doc1));
            (evs, doc3) = emit_lines K f lineGap n doc2
        in (ev @ evs, doc3)))"

definition doc_text ::
  "pdfkit \<Rightarrow> font \<Rightarrow> jsstring \<Rightarrow> real \<Rightarrow> real \<Rightarrow> real \<Rightarrow> document \<Rightarrow> event list \<times> document" where
  "doc_text K f s y width lineGap doc =
     (let doc1 = doc\<lparr>doc_font := f, doc_y := y\<rparr>;
          (ev, doc2) = (if doc_y doc1 + currentLineHeight K f > maxY K
                        then ([AddPage], addPage doc1) else ([], doc1));
          (evs, doc3) = emit_lines K f lineGap (lines_of K f s width) doc2
      in (ev @ evs, doc3))"

text \<open>\<open>drawMergedAnioHeader\<close> and \<open>drawTableRow\<close>: the row drawn with the page breaks made
  while its cells are written, the document after the last \<open>text\<close>, and the new vertical
  position. A header row is 25 high whatever height is passed.\<close>

definition drawMergedAnioHeader ::
  "pdfkit \<Rightarrow> document \<Rightarrow> real \<Rightarrow> jsstring \<Rightarrow> real \<Rightarrow> event list \<times> document \<times> real" where
  "drawMergedAnioHeader K doc y anioTxt headerHeight =
     (let cellPadding = 3;
          totalWidth = TOTAL_TABLE_WIDTH;
          (ev, doc1) = doc_text K (True, 9) anioTxt (y + cellPadding + 3)
                         (totalWidth - (cellPadding * 2)) 1 doc
      in (Draw AnioHeader y headerHeight # ev, doc1, y + headerHeight))"

text \<open>The cells of a row, left to right: each has its rectangle drawn at the row's
  position and then its text written, with the line gap 1, within its width less the
  padding.\<close>

definition draw_cells ::
  "pdfkit \<Rightarrow> font \<Rightarrow> real \<Rightarrow> real \<Rightarrow> document \<Rightarrow> (jsstring \<times> real) list \<Rightarrow> event list \<times> document" where
  "draw_cells K f y padding doc cells =
     foldl (\<lambda>(evs, dc) (txt, width).
              (let (ev, dc1) = doc_text K f txt y (width - padding) 1 dc in (evs @ ev, dc1)))
           ([], doc) cells"

definition drawTableRow ::
  "pdfkit \<Rightarrow> kind \<Rightarrow> document \<Rightarrow> real \<Rightarrow> real \<Rightarrow> jsstring list \<Rightarrow> bool \<Rightarrow> bool
     \<Rightarrow> event list \<times> document \<times> real" where
  "drawTableRow K k doc y heights data isHeader isTotalRow =
     (let cellPadding = 3;
          rowHeight = (if isHeader then 25 else heights);
          (ev, doc1) = draw_cells K (isHeader \<or> isTotalRow, 7) (y + cellPadding) (cellPadding * 2) doc
                         (zip data COL_WIDTHS)
      in (Draw k y rowHeight # ev, doc1, y + rowHeight))"

text \<open>The height of a subject's row, as measured in Helvetica 7 before the page-break
  decision and again when the row is drawn.\<close>

definition rowHeight :: "pdfkit \<Rightarrow> materia_plan \<Rightarrow> real" where
  "rowHeight K materia =
     (let textWidthMateria = COL_WIDTHS ! 2 - 6;
          textHeight = heightOfString K (False, 7) (p_nombre_materia materia) textWidthMateria 1;
          allCorrelativas = [join (cursarAprobada materia), join (cursarRegular materia),
                             join (rendirAprobada materia)];
          maxCorrHeight = foldl (\<lambda>mx (corrText, colWidth).
                                   max mx (heightOfString K (False, 7) corrText (colWidth - 6) 1))
                            0 (zip allCorrelativas [COL_WIDTHS ! 8, COL_WIDTHS ! 9, COL_WIDTHS ! 10]);
          minRowHeight = 18
      in max minRowHeight (max (textHeight + 6) (maxCorrHeight + 6)))"

definition rowData :: "materia_plan \<Rightarrow> jsstring list" where
  "rowData materia =
     [p_id_materia materia, or_ND (p_campo_formacion materia), p_nombre_materia materia,
      or_ND (p_formato materia), or_ND (p_modalidad materia), or_ND (p_horas_semanales materia),
      or_ND (p_total_horas_anuales materia), or_ND (p_acreditacion materia),
      join (cursarAprobada materia), join (cursarRegular materia), join (rendirAprobada materia)]"

fun dibujar_materias ::
  "pdfkit \<Rightarrow> document \<Rightarrow> real \<Rightarrow> materia_plan list \<Rightarrow> event list \<times> document \<times> real" where
  "dibujar_materias K doc currentY [] = ([], doc, currentY)"
| "dibujar_materias K doc currentY (materia # rest) =
     (let (ev, doc1, y1) = drawTableRow K (MateriaRow (p_id_materia materia)) doc currentY
                              (rowHeight K materia) (rowData materia) False False;
          (evs, doc2, y2) = dibujar_materias K doc1 y1 rest
      in (ev @ evs, doc2, y2))"

text \<open>The space a year's block is taken to need: the small space before the title, the
  block (year header, column header, rows, totals row) and the space after it.\<close>

definition totalSpaceNeeded :: "pdfkit \<Rightarrow> anio_plan \<Rightarrow> real" where
  "totalSpaceNeeded K g =
     (let mergedAnioHeaderHeight = 20; headerHeight = 30; smallSpaceHeight = 2.2; totalRowHeight = 25;
          materiasTotalHeight = foldl (\<lambda>acc materia. acc + rowHeight K materia) 0 (materias_del_anio g);
          blockHeight = mergedAnioHeaderHeight + headerHeight + materiasTotalHeight + totalRowHeight;
          spaceAfterBlock = 15
      in smallSpaceHeight + blockHeight + spaceAfterBlock)"

text \<open>A totals row: six merged cells with the title (written with no line gap), then
  five cells.\<close>

definition dibujar_total ::
  "pdfkit \<Rightarrow> kind \<Rightarrow> document \<Rightarrow> real \<Rightarrow> jsstring \<Rightarrow> jsstring \<Rightarrow> real
     \<Rightarrow> event list \<times> document \<times> real" where
  "dibujar_total K k doc totalRowY titulo totalTxt totalRowHeight =
     (let totalMergedWidth = COL_WIDTHS ! 0 + COL_WIDTHS ! 1 + COL_WIDTHS ! 2 + COL_WIDTHS ! 3
                             + COL_WIDTHS ! 4 + COL_WIDTHS ! 5;
          (ev1, doc1) = doc_text K (True, 8) titulo (totalRowY + 7) (totalMergedWidth - 6) 0 doc;
          remainingData = [totalTxt, [], [], [], []];
          remainingWidths = [COL_WIDTHS ! 6, COL_WIDTHS ! 7, COL_WIDTHS ! 8, COL_WIDTHS ! 9, COL_WIDTHS ! 10];
          (ev2, doc2) = draw_cells K (True, 7) (totalRowY + 9) 6 doc1 (zip remainingData remainingWidths)
      in (Draw k totalRowY totalRowHeight # ev1 @ ev2, doc2, totalRowY + totalRowHeight))"

definition TOTAL_HORAS :: jsstring where
  "TOTAL_HORAS = [84, 79, 84, 65, 76, 32, 72, 79, 82, 65, 83, 32]"

text \<open>One iteration of the loop over the years, from the document and \<open>currentY\<close> it
  starts with. Measuring the rows leaves the font at Helvetica 7.\<close>

definition layout_anio ::
  "pdfkit \<Rightarrow> jsstring list \<Rightarrow> document \<times> real \<Rightarrow> anio_plan \<Rightarrow> event list \<times> document \<times> real" where
  "layout_anio K headerData st g =
     (let doc = fst st; currentY = snd st;
          mergedAnioHeaderHeight = 20; headerHeight = 30; totalRowHeight = 25; pageBottomMargin = 30;
          doc0 = (if materias_del_anio g = [] then doc else doc\<lparr>doc_font := (False, 7)\<rparr>);
          (ev0, doc1, currentY1) =
             (if currentY + totalSpaceNeeded K g > page_height K - pageBottomMargin
              then ([AddPage], addPage doc0, 30) else ([], doc0, currentY));
          doc2 = moveDown K 0.2 doc1;
          currentY2 = doc_y doc2;
          (ev1, doc3, currentY3) = drawMergedAnioHeader K doc2 currentY2 (anioText g) mergedAnioHeaderHeight;
          (ev2, doc4, currentY4) = drawTableRow K ColumnHeader doc3 currentY3 headerHeight headerData True False;
          (ev3, doc5, currentY5) = dibujar_materias K doc4 currentY4 (materias_del_anio g);
          (ev4, doc6, currentY6) = dibujar_total K TotalAnual doc5 currentY5 (TOTAL_HORAS @ anioText g)
                                     (totalHorasAnuales g) totalRowHeight;
          doc7 = moveDown K 1 doc6
      in (ev0 @ ev1 @ ev2 @ ev3 @ ev4, doc7, doc_y doc7))"

text \<open>The loop over the years, and the whole table with the final totals row.\<close>

fun layout_anios ::
  "pdfkit \<Rightarrow> jsstring list \<Rightarrow> document \<times> real \<Rightarrow> anio_plan list \<Rightarrow> event list \<times> document \<times> real" where
  "layout_anios K headerData st [] = ([], st)"
| "layout_anios K headerData st (g # gs) =
     (let (ev, st1) = layout_anio K headerData st g;
          (evs, st2) = layout_anios K headerData st1 gs
      in (ev @ evs, st2))"

definition TOTAL_HORAS_DE_LA_CARRERA :: jsstring where
  "TOTAL_HORAS_DE_LA_CARRERA = [84, 79, 84, 65, 76, 32, 72, 79, 82, 65, 83, 32, 68, 69, 32, 76, 65,
     32, 67, 65, 82, 82, 69, 82, 65]"

definition layout_plan ::
  "pdfkit \<Rightarrow> jsstring list \<Rightarrow> document \<Rightarrow> anio_plan list \<Rightarrow> jsstring \<Rightarrow> event list" where
  "layout_plan K headerData doc0 anios totalHorasCarrera =
     (let (evs, doc, currentY) = layout_anios K headerData (doc0, doc_y doc0) anios;
          finalTotalRowHeight = 25;
          spaceForFinalTotal = finalTotalRowHeight + 10;
          (ev0, doc1, currentY1) =
             (if currentY + spaceForFinalTotal > page_height K - 30
              then ([AddPage], addPage doc, 30) else ([], doc, currentY));
          (ev1, doc2, currentY2) = dibujar_total K TotalCarrera doc1 currentY1 TOTAL_HORAS_DE_LA_CARRERA
                                     totalHorasCarrera finalTotalRowHeight
      in evs @ ev0 @ ev1)"

section \<open>Example data\<close>

definition ejemplo_rector :: administrador where
  "ejemplo_rector = \<lparr>id_administrador = 1, nombre_administrador = ''Rita'', email = None,
     contrasena = Bcrypt [], dni = None, telefono = None, rol = ''Rector'', a_estado = ''activo'',
     a_fecha_eliminacion = None, a_id_administrador_eliminacion = None\<rparr>"

definition ejemplo_coordinador :: administrador where
  "ejemplo_coordinador = \<lparr>id_administrador = 2, nombre_administrador = ''Ana'', email = None,
     contrasena = Bcrypt [], dni = None, telefono = None, rol = ''Coordinador'', a_estado = ''activo'',
     a_fecha_eliminacion = None, a_id_administrador_eliminacion = None\<rparr>"

text \<open>Two careers, the second one soft-deleted; each has one active subject, and the
  subject of the deleted career has an active slot and an active prerequisite edge.\<close>

definition ejemplo_carrera_1 :: carrera where
  "ejemplo_carrera_1 = \<lparr>id_carrera = 1, nombre_carrera = ''Historia'', duracion = 4,
     c_modalidad = ''Presencial'', anio_aprobacion = 2015, c_estado = ''activa'',
     c_fecha_eliminacion = None, c_id_administrador_eliminacion = None\<rparr>"

definition ejemplo_carrera_2 :: carrera where
  "ejemplo_carrera_2 = \<lparr>id_carrera = 2, nombre_carrera = ''Letras'', duracion = 4,
     c_modalidad = ''Presencial'', anio_aprobacion = 2010, c_estado = ''inactiva'',
     c_fecha_eliminacion = Some 5, c_id_administrador_eliminacion = Some 1\<rparr>"

definition ejemplo_materia_10 :: materia where
  "ejemplo_materia_10 = \<lparr>id_materia = 10, nombre_materia = ''Historia Antigua'', m_id_carrera = 1,
     anio = 1, m_estado = ''activa'', m_fecha_eliminacion = None,
     m_id_administrador_eliminacion = None\<rparr>"

definition ejemplo_materia_20 :: materia where
  "ejemplo_materia_20 = \<lparr>id_materia = 20, nombre_materia = ''Latin'', m_id_carrera = 2,
     anio = 1, m_estado = ''activa'', m_fecha_eliminacion = None,
     m_id_administrador_eliminacion = None\<rparr>"

definition ejemplo_horario_100 :: horario where
  "ejemplo_horario_100 = \<lparr>id_horario = 100, h_id_materia = 20, dia_semana = ''Lunes'',
     hora_inicio = ''08:00'', hora_fin = ''10:00'', h_estado = ''activa'',
     h_fecha_eliminacion = None, h_id_administrador_eliminacion = None\<rparr>"

definition ejemplo_correlatividad_1000 :: correlatividad where
  "ejemplo_correlatividad_1000 = \<lparr>id_correlatividad = 1000, id_materia_principal = 20,
     id_materia_requisito = 10, tipo = ''Cursar'', estado_requisito = ''Regular'',
     k_estado = ''activa'', k_fecha_eliminacion = None, k_id_administrador_eliminacion = None\<rparr>"

definition ejemplo_db :: db where
  "ejemplo_db = \<lparr>administradores = [ejemplo_rector, ejemplo_coordinador],
     carreras = [ejemplo_carrera_1, ejemplo_carrera_2], admin_carrera = [(2, 1)],
     materias = [ejemplo_materia_10, ejemplo_materia_20], horarios = [ejemplo_horario_100],
     correlatividades = [ejemplo_correlatividad_1000],
     next_id_administrador = 3, default_estado_administrador = ''activo''\<rparr>"

text \<open>The same tables with, besides, an active slot and an active prerequisite edge of
  the subject 10, which is of the career 1, assigned to the Coordinador 2.\<close>

definition ejemplo_horario_101 :: horario where
  "ejemplo_horario_101 = \<lparr>id_horario = 101, h_id_materia = 10, dia_semana = ''Martes'',
     hora_inicio = ''10:00'', hora_fin = ''12:00'', h_estado = ''activa'',
     h_fecha_eliminacion = None, h_id_administrador_eliminacion = None\<rparr>"

definition ejemplo_correlatividad_1001 :: correlatividad where
  "ejemplo_correlatividad_1001 = \<lparr>id_correlatividad = 1001, id_materia_principal = 10,
     id_materia_requisito = 20, tipo = ''Cursar'', estado_requisito = ''Regular'',
     k_estado = ''activa'', k_fecha_eliminacion = None, k_id_administrador_eliminacion = None\<rparr>"

definition ejemplo_db_coordinador :: db where
  "ejemplo_db_coordinador = ejemplo_db\<lparr>horarios := [ejemplo_horario_100, ejemplo_horario_101],
     correlatividades := [ejemplo_correlatividad_1000, ejemplo_correlatividad_1001]\<rparr>"

text \<open>A reading of route parameters that agrees with MySQL on the strings of decimal
  digits: such a string is equal to the identifier with those digits, leading zeros or
  not, and any other string is taken to be equal to none.\<close>

definition ejemplo_mysql :: mysql where
  "ejemplo_mysql s = (if s \<noteq> [] \<and> list_all is_digit s
                      then Some (foldl (\<lambda>n c. 10 * n + (c - 48)) 0 s) else None)"

definition usuario_rector :: user where
  "usuario_rector = \<lparr>u_id = 1, u_rol = ''Rector'', carreras_a_cargo_ids = None\<rparr>"

definition usuario_coordinador :: user where
  "usuario_coordinador = \<lparr>u_id = 2, u_rol = ''Coordinador'', carreras_a_cargo_ids = Some [1]\<rparr>"

definition usuario_sin_carreras :: user where
  "usuario_sin_carreras = \<lparr>u_id = 2, u_rol = ''Coordinador'', carreras_a_cargo_ids = Some []\<rparr>"

definition ejemplo_db_sin_asignaciones :: db where
  "ejemplo_db_sin_asignaciones = ejemplo_db\<lparr>admin_carrera := []\<rparr>"

definition registro_sin_rol :: nuevo_usuario_body where
  "registro_sin_rol = \<lparr>n_nombre_administrador = Some ''Eva'', n_email = None,
     n_contrasena = Some [97], n_dni = None, n_telefono = None, n_rol = None\<rparr>"

definition body_carrera :: carrera_body where
  "body_carrera = \<lparr>cb_nombre_carrera = Some ''Historia'', cb_duracion = Some 4,
     cb_modalidad = Some ''Presencial'', cb_anio_aprobacion = Some 2015,
     cb_id_coordinador = Some 2, cb_estado = None\<rparr>"

definition ejemplo_db_dos_asignaciones :: db where
  "ejemplo_db_dos_asignaciones = ejemplo_db\<lparr>admin_carrera := [(2, 1), (1, 1), (2, 2)]\<rparr>"

text \<open>A PDFKit where every string that is not empty takes one line, a line is 8 high
  in every font, and the page is A4 in landscape; a year of thirty subjects, each with a
  name and its number; the eleven column titles, shortened; and the document as the
  titles of the plan leave it.\<close>

definition ejemplo_pdfkit :: pdfkit where
  "ejemplo_pdfkit = \<lparr>lines_of = (\<lambda>f s w. if s = [] then 0 else 1), currentLineHeight = (\<lambda>f. 8),
     page_height = 595.28\<rparr>"

definition ejemplo_materia_plan :: "nat \<Rightarrow> materia_plan" where
  "ejemplo_materia_plan n = \<lparr>p_id_materia = String_of n, p_campo_formacion = [],
     p_nombre_materia = [72], p_formato = [], p_modalidad = [], p_horas_semanales = [52],
     p_total_horas_anuales = [], p_acreditacion = [], cursarAprobada = [], cursarRegular = [],
     rendirAprobada = []\<rparr>"


definition ejemplo_anio_2 :: anio_plan where
  "ejemplo_anio_2 = \<lparr>anioText = [50], materias_del_anio = map ejemplo_materia_plan [1, 2],
     totalHorasAnuales = [56]\<rparr>"

definition ejemplo_headerData :: "jsstring list" where
  "ejemplo_headerData = [[78], [67], [85], [70], [77], [72], [72], [65], [82], [82], [82]]"

definition ejemplo_document :: document where
  "ejemplo_document = \<lparr>doc_y = 100, doc_font = (False, 10)\<rparr>"

definition body_vacio :: usuario_body where
  "body_vacio = \<lparr>b_nombre_administrador = None, b_email = None, b_newContrasena = None,
     b_dni = None, b_telefono = None, b_rol = None, b_estado = None\<rparr>"

section \<open>Properties\<close>

lemmas tx_defs = beginTransaction_def rollback_def commit_def query_def

lemmas ejemplo_defs = ejemplo_rector_def ejemplo_coordinador_def ejemplo_db_def
  usuario_rector_def usuario_coordinador_def body_vacio_def no_fault_def
  ejemplo_carrera_1_def ejemplo_carrera_2_def ejemplo_materia_10_def ejemplo_materia_20_def
  ejemplo_horario_100_def ejemplo_correlatividad_1000_def

lemmas update_defs = updateUserByAdmin_def updateUserByAdmin_access_def updateUserByAdmin_write_def
  estadoAUsar_def desasignar_def build_sqlParts_def personal_parts_def protected_parts_def
  find_administrador_def affected_administrador_def update_administrador_def
  delete_asignaciones_de_admin_def catch_update_def

subsection \<open>Lookups\<close>

lemma find_Some_mem: "List.find P xs = Some a \<Longrightarrow> a \<in> set xs \<and> P a"
  by (induction xs) (auto split: if_splits)

lemma find_administrador_mem:
  "find_administrador d i = Some a \<Longrightarrow> a \<in> set (administradores d) \<and> id_administrador a = i"
  unfolding find_administrador_def by (drule find_Some_mem) simp

lemma find_administrador_affected:
  "find_administrador d i = Some a \<Longrightarrow> affected_administrador i d \<noteq> 0"
  by (drule find_administrador_mem) (auto simp: affected_administrador_def filter_empty_conv)

subsection \<open>Route identifiers\<close>

text \<open>The string \<open>String\<close> gives for a number consists of decimal digits whose value is
  that number, so the example reading of route parameters finds it equal to that
  identifier; and it finds the same string with a zero before it equal to that identifier
  too, while the two strings differ.\<close>

lemma String_of_digit: "n < 10 \<Longrightarrow> String_of n = [48 + n]"
  by (simp add: String_of.simps)

lemma String_of_not_Nil: "String_of n \<noteq> []"
  by (subst String_of.simps) simp

lemma String_of_digits: "c \<in> set (String_of n) \<Longrightarrow> is_digit c"
proof (induction n rule: String_of.induct)
  case (1 n)
  show ?case
  proof (cases "n < 10")
    case True
    with "1.prems" show ?thesis by (simp add: String_of_digit is_digit_def)
  next
    case False
    from "1.prems" have "c \<in> set (String_of (n div 10)) \<or> c = 48 + n mod 10"
      by (subst (asm) String_of.simps) (auto simp: False)
    then show ?thesis
    proof
      assume "c \<in> set (String_of (n div 10))"
      then show ?thesis using False by (rule "1.IH" [rotated])
    next
      assume "c = 48 + n mod 10"
      moreover have "n mod 10 < 10" by simp
      ultimately show ?thesis unfolding is_digit_def by linarith
    qed
  qed
qed

lemma foldl_String_of: "foldl (\<lambda>n c. 10 * n + (c - 48)) 0 (String_of n) = n"
proof (induction n rule: String_of.induct)
  case (1 n)
  show ?case
  proof (cases "n < 10")
    case True
    then show ?thesis by (simp add: String_of_digit)
  next
    case False
    have "foldl (\<lambda>n c. 10 * n + (c - 48)) 0 (String_of n)
        = 10 * foldl (\<lambda>n c. 10 * n + (c - 48)) 0 (String_of (n div 10)) + n mod 10"
      by (subst String_of.simps) (simp add: False)
    also have "\<dots> = 10 * (n div 10) + n mod 10" using False by (simp add: "1.IH")
    finally show ?thesis by simp
  qed
qed

lemma ejemplo_mysql_String_of: "ejemplo_mysql (String_of n) = Some n"
proof -
  have "list_all is_digit (String_of n)"
    unfolding list_all_iff using String_of_digits by blast
  then show ?thesis
    by (simp add: ejemplo_mysql_def String_of_not_Nil foldl_String_of)
qed

lemma ejemplo_mysql_leading_zero: "ejemplo_mysql (48 # String_of n) = Some n"
proof -
  have "list_all is_digit (String_of n)"
    unfolding list_all_iff using String_of_digits by blast
  then show ?thesis
    by (simp add: ejemplo_mysql_def is_digit_def foldl_String_of)
qed

lemma leading_zero_not_String_of: "48 # String_of n \<noteq> String_of n"
  by simp

subsection \<open>Updating an administrator\<close>

text \<open>Once the row is found, the update is its access decision followed by its writes.\<close>

lemma updateUserByAdmin_found:
  assumes "M p = Some i" and "find_administrador d i = Some cur"
    and "flt GetConnection = None" "flt BeginTransaction = None" "flt (Query 1) = None"
  shows "updateUserByAdmin M flt now u p b d =
      (case updateUserByAdmin_access u p b cur of
          Some denial \<Rightarrow> (denial, d)
        | None \<Rightarrow> updateUserByAdmin_write flt now u i b cur (beginTransaction d))"
  using assms by (simp add: updateUserByAdmin_def tx_defs Let_def split: option.splits)

lemma updateUserByAdmin_write_message:
  "message (fst (updateUserByAdmin_write flt now u i b cur c)) \<noteq> NoPuedeSuspenderSuPropiaCuenta"
  unfolding updateUserByAdmin_write_def
  by (simp add: Let_def catch_update_def split: option.splits sum.splits)

text \<open>
  C2, as the specification states it, fails: a Coordinador (2, Ana) who sends a new name
  together with a role to \<open>/usuarios/2\<close> gets 403 and keeps the old name; nothing of the
  request is applied.
\<close>

theorem coordinador_rol_estado_counterexample:
  "updateUserByAdmin ejemplo_mysql no_fault 0 usuario_coordinador [50]
     (body_vacio\<lparr>b_nombre_administrador := Some ''Eva'', b_rol := Some ''Rector''\<rparr>) ejemplo_db
   = (Reply 403 CoordinadorNoModificaRolOEstado, ejemplo_db)
   \<and> map nombre_administrador (administradores ejemplo_db) = [''Rita'', ''Ana'']"
  by (simp add: ejemplo_defs update_defs tx_defs ejemplo_mysql_def is_digit_def String_of_digit)

text \<open>
  C2, amended: when a Coordinador updates their own Administrator record and the request
  holds \<open>rol\<close> or \<open>estado\<close>, the whole request is denied with 403 and the tables are left
  as they were, whatever other personal fields the request holds. When the route
  parameter is their identifier as \<open>String\<close> writes it, the denial is that a Coordinador
  cannot modify role or state; under any other spelling that MySQL reads as their
  identifier the request is denied with 403 as well.
\<close>

theorem coordinador_rol_estado_denied:
  assumes "u_rol u = ''Coordinador''" and "M p = Some (u_id u)"
    and "b_rol b \<noteq> None \<or> b_estado b \<noteq> None"
    and "find_administrador d (u_id u) = Some cur"
    and "flt GetConnection = None" "flt BeginTransaction = None" "flt (Query 1) = None"
  shows "status (fst (updateUserByAdmin M flt now u p b d)) = 403
       \<and> snd (updateUserByAdmin M flt now u p b d) = d
       \<and> (p = String_of (u_id u) \<longrightarrow>
            updateUserByAdmin M flt now u p b d = (Reply 403 CoordinadorNoModificaRolOEstado, d))"
proof -
  note run = updateUserByAdmin_found [where M = M and p = p, OF assms(2) assms(4-7)]
  have any: "updateUserByAdmin_access u p b cur = Some (Reply 403 CoordinadorSoloEditaSusDatos)
      \<or> updateUserByAdmin_access u p b cur = Some (Reply 403 CoordinadorNoModificaRolOEstado)"
    using assms(1,3) by (simp add: updateUserByAdmin_access_def)
  have own: "p = String_of (u_id u) \<Longrightarrow>
      updateUserByAdmin_access u p b cur = Some (Reply 403 CoordinadorNoModificaRolOEstado)"
    using assms(1,3) by (simp add: updateUserByAdmin_access_def)
  show ?thesis
  proof (intro conjI impI)
    show "status (fst (updateUserByAdmin M flt now u p b d)) = 403"
      using any by (auto simp: run)
    show "snd (updateUserByAdmin M flt now u p b d) = d"
      using any by (auto simp: run)
  next
    assume "p = String_of (u_id u)"
    from own [OF this]
    show "updateUserByAdmin M flt now u p b d = (Reply 403 CoordinadorNoModificaRolOEstado, d)"
      by (simp add: run)
  qed
qed

theorem coordinador_rol_estado_denied_witness:
  "u_rol usuario_coordinador = ''Coordinador''
   \<and> ejemplo_mysql [50] = Some (u_id usuario_coordinador)
   \<and> find_administrador ejemplo_db (u_id usuario_coordinador) = Some ejemplo_coordinador
   \<and> [50] = String_of (u_id usuario_coordinador)
   \<and> updateUserByAdmin ejemplo_mysql no_fault 7 usuario_coordinador [50]
        (body_vacio\<lparr>b_telefono := Some ''555'', b_estado := Some ''activo''\<rparr>) ejemplo_db
      = (Reply 403 CoordinadorNoModificaRolOEstado, ejemplo_db)
   \<and> ejemplo_mysql [48, 50] = Some (u_id usuario_coordinador)
   \<and> status (fst (updateUserByAdmin ejemplo_mysql no_fault 7 usuario_coordinador [48, 50]
        (body_vacio\<lparr>b_telefono := Some ''555'', b_estado := Some ''activo''\<rparr>) ejemplo_db)) = 403
   \<and> snd (updateUserByAdmin ejemplo_mysql no_fault 7 usuario_coordinador [48, 50]
        (body_vacio\<lparr>b_telefono := Some ''555'', b_estado := Some ''activo''\<rparr>) ejemplo_db) = ejemplo_db"
proof -
  have h: "u_rol usuario_coordinador = ''Coordinador''"
      "ejemplo_mysql [50] = Some (u_id usuario_coordinador)"
      "ejemplo_mysql [48, 50] = Some (u_id usuario_coordinador)"
      "b_rol (body_vacio\<lparr>b_telefono := Some ''555'', b_estado := Some ''activo''\<rparr>) \<noteq> None
       \<or> b_estado (body_vacio\<lparr>b_telefono := Some ''555'', b_estado := Some ''activo''\<rparr>) \<noteq> None"
      "find_administrador ejemplo_db (u_id usuario_coordinador) = Some ejemplo_coordinador"
      "no_fault GetConnection = None" "no_fault BeginTransaction = None" "no_fault (Query 1) = None"
    by (simp_all add: ejemplo_defs find_administrador_def ejemplo_mysql_def is_digit_def)
  have c: "[50] = String_of (u_id usuario_coordinador)"
    by (simp add: usuario_coordinador_def String_of_digit)
  note t1 = coordinador_rol_estado_denied [where M = ejemplo_mysql and p = "[50]" and now = 7,
      OF h(1,2,4,5,6,7,8)]
  note t2 = coordinador_rol_estado_denied [where M = ejemplo_mysql and p = "[48, 50]" and now = 7,
      OF h(1,3,4,5,6,7,8)]
  show ?thesis
    by (intro conjI h(1,2,3,5) c t1 [THEN conjunct2, THEN conjunct2, THEN mp, OF c]
        t2 [THEN conjunct1] t2 [THEN conjunct2, THEN conjunct1])
qed

text \<open>When the route parameter is the identifier of the principal as \<open>String\<close> writes it,
  asking for one's own suspension or inactivation is denied and nothing is applied.\<close>

lemma self_suspension_denied_canonical:
  assumes "M (String_of (u_id u)) = Some (u_id u)"
    and "find_administrador d (u_id u) = Some cur"
    and "b_estado b = Some e"
    and "e = ''suspendido'' \<or> e = ''inactivo''" and "e \<noteq> a_estado cur"
    and "flt GetConnection = None" "flt BeginTransaction = None" "flt (Query 1) = None"
  shows "status (fst (updateUserByAdmin M flt now u (String_of (u_id u)) b d)) = 403
       \<and> snd (updateUserByAdmin M flt now u (String_of (u_id u)) b d) = d"
proof -
  have eu: "estadoAUsar b cur = e" using assms(3,4) by (auto simp: estadoAUsar_def)
  have "\<exists>m. updateUserByAdmin_access u (String_of (u_id u)) b cur = Some (Reply 403 m)"
    using assms(4,5) eu by (simp add: updateUserByAdmin_access_def)
  then obtain m where "updateUserByAdmin_access u (String_of (u_id u)) b cur = Some (Reply 403 m)"
    by blast
  then show ?thesis
    by (simp add: updateUserByAdmin_found [where M = M and p = "String_of (u_id u)",
          OF assms(1,2) assms(6-8)])
qed

text \<open>Under another spelling of the identifier, a principal who is not a Coordinador is
  not stopped by the access control, whatever state is asked for.\<close>

lemma self_suspension_other_spelling:
  assumes "u_rol u \<noteq> ''Coordinador''" and "p \<noteq> String_of (u_id u)"
  shows "updateUserByAdmin_access u p b cur = None"
  using assms by (auto simp: updateUserByAdmin_access_def)

text \<open>
  C3 asks that an administrator who targets their own record and requests the state
  suspended or inactive, different from the current one, be denied with 403 and the
  record left unchanged. The code does not do so when the route parameter spells the
  identifier otherwise than \<open>String\<close> does. The Rector 1 (Rita), active and admitted by
  \<open>protect\<close>, sends \<open>{estado: 'suspendido'}\<close> to \<open>/usuarios/01\<close>. Whenever MySQL finds
  \<open>'01'\<close> equal to the identifier 1, as it does, the SELECT finds the Rector's own row,
  the comparison of \<open>'1'\<close> with \<open>'01'\<close> finds two different strings, the answer is 200,
  and the row of the Rector is suspended with the audit fields written. With the token
  that was admitted before, the Rector is now refused.
\<close>

theorem self_suspension_not_denied:
  assumes "M [48, 49] = Some 1"
  shows "protect no_fault 7 (Some (generateToken 0 1 ''Rector'')) ejemplo_db = Inr usuario_rector
   \<and> find_administrador ejemplo_db (u_id usuario_rector) = Some ejemplo_rector
   \<and> a_estado ejemplo_rector = ''activo''
   \<and> updateUserByAdmin M no_fault 7 usuario_rector [48, 49]
        (body_vacio\<lparr>b_estado := Some ''suspendido''\<rparr>) ejemplo_db
      = (Reply 200 AdministradorActualizado,
         ejemplo_db\<lparr>administradores :=
           [ejemplo_rector\<lparr>a_estado := ''suspendido'', a_fecha_eliminacion := Some 7,
                           a_id_administrador_eliminacion := Some 1\<rparr>,
            ejemplo_coordinador]\<rparr>)
   \<and> protect no_fault 8 (Some (generateToken 0 1 ''Rector''))
        (snd (updateUserByAdmin M no_fault 7 usuario_rector [48, 49]
                (body_vacio\<lparr>b_estado := Some ''suspendido''\<rparr>) ejemplo_db))
      = Inl (Reply 403 (CuentaNoActiva ''suspendido''))"
  using assms
  by (simp add: ejemplo_defs update_defs tx_defs String_of_digit
      protect_def generateToken_def jwt_sign_def validatePasswordRules_def)

theorem self_suspension_not_denied_witness:
  "ejemplo_mysql [48, 49] = Some 1
   \<and> u_id usuario_rector = 1
   \<and> fst (updateUserByAdmin ejemplo_mysql no_fault 7 usuario_rector [48, 49]
        (body_vacio\<lparr>b_estado := Some ''suspendido''\<rparr>) ejemplo_db) = Reply 200 AdministradorActualizado
   \<and> map a_estado (administradores (snd (updateUserByAdmin ejemplo_mysql no_fault 7 usuario_rector
        [48, 49] (body_vacio\<lparr>b_estado := Some ''suspendido''\<rparr>) ejemplo_db)))
       = [''suspendido'', ''activo'']"
proof -
  have h: "ejemplo_mysql [48, 49] = Some 1"
    by (simp add: ejemplo_mysql_def is_digit_def)
  note t = self_suspension_not_denied [where M = ejemplo_mysql, OF h, THEN conjunct2, THEN conjunct2, THEN conjunct2,
      THEN conjunct1]
  have u: "u_id usuario_rector = 1" by (simp add: usuario_rector_def)
  show ?thesis
    unfolding t by (simp add: h u ejemplo_defs)
qed

subsection \<open>Soft-deleting an administrator\<close>

lemma affected_delete_asignaciones [simp]:
  "affected_administrador i (delete_asignaciones_de_admin j d) = affected_administrador i d"
  by (simp add: affected_administrador_def delete_asignaciones_de_admin_def)

text \<open>The whole run of the soft delete of a Coordinador that is not inactive yet.\<close>

lemma deleteUserByAdmin_coordinador:
  assumes "u_id u \<noteq> 0" "p \<noteq> String_of (u_id u)" "M p = Some i"
    "find_administrador d i = Some a"
    "rol a = ''Coordinador''" "a_estado a \<noteq> ''inactivo''"
  shows "deleteUserByAdmin M flt now u p d =
    (if flt GetConnection = None \<and> flt BeginTransaction = None \<and> flt (Query 1) = None
        \<and> flt (Query 2) = None \<and> flt (Query 3) = None \<and> flt Commit = None
     then (Reply 200 (AdministradorEliminado p),
           soft_delete_administrador now (u_id u) i (delete_asignaciones_de_admin i d))
     else (Reply 500 ErrorInterno, d))"
proof (cases "flt GetConnection")
  case (Some e) then show ?thesis using assms(1,2) by (simp add: deleteUserByAdmin_def)
next
  case g: None
  show ?thesis
  proof (cases "flt BeginTransaction")
    case (Some e) then show ?thesis using assms(1,2) g by (simp add: deleteUserByAdmin_def)
  next
    case b: None
    show ?thesis
    proof (cases "flt (Query 1)")
      case (Some e) then show ?thesis using assms(1,2) g b
        by (simp add: deleteUserByAdmin_def tx_defs)
    next
      case q1: None
      show ?thesis
      proof (cases "flt (Query 2)")
        case (Some e) then show ?thesis using assms g b q1
          by (simp add: deleteUserByAdmin_def tx_defs)
      next
        case q2: None
        show ?thesis
        proof (cases "flt (Query 3)")
          case (Some e) then show ?thesis using assms g b q1 q2
            by (simp add: deleteUserByAdmin_def tx_defs)
        next
          case q3: None
          show ?thesis
            using assms g b q1 q2 q3 find_administrador_affected [OF assms(4)]
            by (cases "flt Commit") (simp_all add: deleteUserByAdmin_def tx_defs)
        qed
      qed
    qed
  qed
qed

lemma soft_delete_rows:
  "administradores (soft_delete_administrador now l i (delete_asignaciones_de_admin i d)) =
     map (\<lambda>x. if id_administrador x = i
               then x\<lparr>a_estado := ''inactivo'', a_fecha_eliminacion := Some now,
                      a_id_administrador_eliminacion := Some l\<rparr>
               else x) (administradores d)"
  by (simp add: soft_delete_administrador_def update_administrador_def delete_asignaciones_de_admin_def)

lemma soft_delete_asignaciones:
  "admin_carrera (soft_delete_administrador now l i (delete_asignaciones_de_admin i d)) =
     filter (\<lambda>ac. fst ac \<noteq> i) (admin_carrera d)"
  by (simp add: soft_delete_administrador_def update_administrador_def delete_asignaciones_de_admin_def)

text \<open>
  C4: soft-deleting an Administrator whose role is Coordinador (not inactive yet; the
  route parameter \<open>p\<close>, which MySQL finds equal to the identifier \<open>i\<close>, is not the
  identifier of the logged administrator as \<open>String\<close> writes it). When no storage call throws, the
  answer is 200, no Assignment row of that administrator is left, and every row of that
  administrator is inactive with the deletion time and the deleting administrator
  written. When any of the calls of the transaction throws (the connection, the begin,
  the SELECT, the DELETE of the assignments, the final UPDATE with the audit fields, the
  commit), the answer is 500 and the tables are exactly as before.
\<close>

theorem coordinador_soft_delete_atomic:
  assumes "u_id u \<noteq> 0" "p \<noteq> String_of (u_id u)" "M p = Some i"
    "find_administrador d i = Some a"
    "rol a = ''Coordinador''" "a_estado a \<noteq> ''inactivo''"
  shows "((\<forall>c \<in> {GetConnection, BeginTransaction, Query 1, Query 2, Query 3, Commit}. flt c = None) \<longrightarrow>
            fst (deleteUserByAdmin M flt now u p d) = Reply 200 (AdministradorEliminado p)
          \<and> (\<forall>ac \<in> set (admin_carrera (snd (deleteUserByAdmin M flt now u p d))). fst ac \<noteq> i)
          \<and> (\<forall>x \<in> set (administradores (snd (deleteUserByAdmin M flt now u p d))).
                id_administrador x = i \<longrightarrow>
                  a_estado x = ''inactivo'' \<and> a_fecha_eliminacion x = Some now
                  \<and> a_id_administrador_eliminacion x = Some (u_id u))
          \<and> find_administrador (snd (deleteUserByAdmin M flt now u p d)) i \<noteq> None)
      \<and> ((\<exists>c \<in> {GetConnection, BeginTransaction, Query 1, Query 2, Query 3, Commit}. flt c \<noteq> None) \<longrightarrow>
            deleteUserByAdmin M flt now u p d = (Reply 500 ErrorInterno, d))"
proof -
  note run = deleteUserByAdmin_coordinador [where M = M and p = p, OF assms, of flt now]
  let ?d' = "soft_delete_administrador now (u_id u) i (delete_asignaciones_de_admin i d)"
  let ?f = "\<lambda>x. if id_administrador x = i
               then x\<lparr>a_estado := ''inactivo'', a_fecha_eliminacion := Some now,
                      a_id_administrador_eliminacion := Some (u_id u)\<rparr>
               else x"
  have p1: "\<forall>ac \<in> set (admin_carrera ?d'). fst ac \<noteq> i"
    by (simp add: soft_delete_asignaciones)
  have p2: "\<forall>x \<in> set (administradores ?d').
                id_administrador x = i \<longrightarrow>
                  a_estado x = ''inactivo'' \<and> a_fecha_eliminacion x = Some now
                  \<and> a_id_administrador_eliminacion x = Some (u_id u)"
  proof (intro ballI impI)
    fix x assume xin: "x \<in> set (administradores ?d')" and xi: "id_administrador x = i"
    from xin have "x \<in> ?f ` set (administradores d)"
      unfolding soft_delete_rows set_map .
    then obtain y where "y \<in> set (administradores d)" and xy: "x = ?f y"
      by (rule imageE)
    show "a_estado x = ''inactivo'' \<and> a_fecha_eliminacion x = Some now
                  \<and> a_id_administrador_eliminacion x = Some (u_id u)"
      using xi unfolding xy by (cases "id_administrador y = i") simp_all
  qed
  have p3: "find_administrador ?d' i \<noteq> None"
  proof -
    from assms(4) have m: "a \<in> set (administradores d)" and ia: "id_administrador a = i"
      by (simp_all add: find_administrador_mem)
    have "?f a \<in> set (map ?f (administradores d))" using m by (simp add: rev_image_eqI)
    moreover have "id_administrador (?f a) = i" using ia by simp
    ultimately have "\<exists>x. x \<in> set (map ?f (administradores d)) \<and> id_administrador x = i" by blast
    then show ?thesis
      unfolding soft_delete_rows find_administrador_def find_None_iff by blast
  qed
  have ok: "(\<forall>c \<in> {GetConnection, BeginTransaction, Query 1, Query 2, Query 3, Commit}. flt c = None)
     \<Longrightarrow> deleteUserByAdmin M flt now u p d = (Reply 200 (AdministradorEliminado p), ?d')"
    unfolding run by simp
  have ko: "(\<exists>c \<in> {GetConnection, BeginTransaction, Query 1, Query 2, Query 3, Commit}. flt c \<noteq> None)
     \<Longrightarrow> deleteUserByAdmin M flt now u p d = (Reply 500 ErrorInterno, d)"
  proof -
    assume "\<exists>c \<in> {GetConnection, BeginTransaction, Query 1, Query 2, Query 3, Commit}. flt c \<noteq> None"
    then have "\<not> (flt GetConnection = None \<and> flt BeginTransaction = None \<and> flt (Query 1) = None
        \<and> flt (Query 2) = None \<and> flt (Query 3) = None \<and> flt Commit = None)"
      by blast
    then show ?thesis unfolding run by (simp only: if_False)
  qed
  show ?thesis
  proof (intro conjI impI)
    assume h: "\<forall>c \<in> {GetConnection, BeginTransaction, Query 1, Query 2, Query 3, Commit}. flt c = None"
    show "fst (deleteUserByAdmin M flt now u p d) = Reply 200 (AdministradorEliminado p)"
      unfolding ok [OF h] by simp
    show "\<forall>ac \<in> set (admin_carrera (snd (deleteUserByAdmin M flt now u p d))). fst ac \<noteq> i"
      unfolding ok [OF h] snd_conv by (rule p1)
    show "\<forall>x \<in> set (administradores (snd (deleteUserByAdmin M flt now u p d))).
                id_administrador x = i \<longrightarrow>
                  a_estado x = ''inactivo'' \<and> a_fecha_eliminacion x = Some now
                  \<and> a_id_administrador_eliminacion x = Some (u_id u)"
      unfolding ok [OF h] snd_conv by (rule p2)
    show "find_administrador (snd (deleteUserByAdmin M flt now u p d)) i \<noteq> None"
      unfolding ok [OF h] snd_conv by (rule p3)
  next
    assume "\<exists>c \<in> {GetConnection, BeginTransaction, Query 1, Query 2, Query 3, Commit}. flt c \<noteq> None"
    then show "deleteUserByAdmin M flt now u p d = (Reply 500 ErrorInterno, d)" by (rule ko)
  qed
qed

theorem coordinador_soft_delete_atomic_witness:
  "u_id usuario_rector \<noteq> 0 \<and> [50] \<noteq> String_of (u_id usuario_rector)
   \<and> ejemplo_mysql [50] = Some 2
   \<and> find_administrador ejemplo_db 2 = Some ejemplo_coordinador
   \<and> rol ejemplo_coordinador = ''Coordinador'' \<and> a_estado ejemplo_coordinador \<noteq> ''inactivo''
   \<and> fst (deleteUserByAdmin ejemplo_mysql no_fault 7 usuario_rector [50] ejemplo_db) = Reply 200 (AdministradorEliminado [50])
   \<and> deleteUserByAdmin ejemplo_mysql (no_fault(Query 3 := Some ER_OTHER)) 7 usuario_rector [50] ejemplo_db
       = (Reply 500 ErrorInterno, ejemplo_db)"
proof -
  have hyp: "u_id usuario_rector \<noteq> 0" "[50] \<noteq> String_of (u_id usuario_rector)"
    "ejemplo_mysql [50] = Some 2"
    "find_administrador ejemplo_db 2 = Some ejemplo_coordinador"
    "rol ejemplo_coordinador = ''Coordinador''" "a_estado ejemplo_coordinador \<noteq> ''inactivo''"
    by (simp_all add: ejemplo_defs find_administrador_def ejemplo_mysql_def is_digit_def String_of_digit)
  have none: "\<forall>c \<in> {GetConnection, BeginTransaction, Query 1, Query 2, Query 3, Commit}. no_fault c = None"
    by (simp add: no_fault_def)
  have some: "\<exists>c \<in> {GetConnection, BeginTransaction, Query 1, Query 2, Query 3, Commit}.
      (no_fault(Query 3 := Some ER_OTHER)) c \<noteq> None"
    by simp
  note ok = coordinador_soft_delete_atomic [where M = ejemplo_mysql and p = "[50]", OF hyp,
      of no_fault 7, THEN conjunct1, THEN mp, OF none,
      THEN conjunct1]
  note ko = coordinador_soft_delete_atomic [where M = ejemplo_mysql and p = "[50]", OF hyp,
      of "no_fault(Query 3 := Some ER_OTHER)" 7,
      THEN conjunct2, THEN mp, OF some]
  show ?thesis
    by (intro conjI hyp ok ko)
qed

subsection \<open>Reads\<close>

text \<open>
  C1, as the specification states it, fails: the Rector's list of subjects returns the
  active subject 20 (Latin) of career 2, which is soft-deleted.
\<close>

theorem reads_ignore_career_state_counterexample:
  "getMateriasAll no_fault usuario_rector None ejemplo_db = Inr [ejemplo_materia_10, ejemplo_materia_20]
   \<and> m_id_carrera ejemplo_materia_20 = 2
   \<and> map c_estado (filter (\<lambda>c. id_carrera c = 2) (carreras ejemplo_db)) = [''inactiva'']"
  by (simp add: getMateriasAll_def ejemplo_defs)

lemma getMateriasAll_rows:
  "getMateriasAll flt u q d = Inr ms \<Longrightarrow> m \<in> set ms \<Longrightarrow> m \<in> set (materias d) \<and> m_estado m = ''activa''"
  unfolding getMateriasAll_def Let_def
  by (auto split: if_splits option.splits)

lemma hd_filter_mem: "filter P xs = y # ys \<Longrightarrow> y \<in> set xs \<and> P y"
proof -
  assume a: "filter P xs = y # ys"
  have "y \<in> set (filter P xs)" by (simp add: a)
  then show ?thesis by simp
qed

lemma getMateriaById_row:
  "getMateriaById flt u i d = Inr m \<Longrightarrow> m \<in> set (materias d) \<and> m_estado m = ''activa'' \<and> id_materia m = i"
  unfolding getMateriaById_def Let_def
  by (auto split: if_splits option.splits list.splits dest: hd_filter_mem)

lemma getHorariosPorMateria_rows:
  "getHorariosPorMateria flt u im d = Inr rs \<Longrightarrow> r \<in> set rs
     \<Longrightarrow> fst r \<in> set (horarios d) \<and> h_estado (fst r) = ''activa''"
  unfolding getHorariosPorMateria_def
  by (auto split: if_splits option.splits)

lemma getHorarioById_row:
  "getHorarioById flt i d = Inr h \<Longrightarrow> h \<in> set (horarios d) \<and> h_estado h = ''activa'' \<and> id_horario h = i"
  unfolding getHorarioById_def
  by (auto split: if_splits option.splits list.splits dest: hd_filter_mem)

lemma getHorariosByMateria_rows:
  "getHorariosByMateria flt im d = Inr rs \<Longrightarrow> r \<in> set rs
     \<Longrightarrow> \<exists>h \<in> set (horarios d). h_estado h = ''activa'' \<and> r = (dia_semana h, hora_inicio h, hora_fin h)"
  unfolding getHorariosByMateria_def
  by (auto split: if_splits option.splits)

lemma getCorrelatividadesPorMateria_rows:
  "getCorrelatividadesPorMateria flt u ip d = Inr rs \<Longrightarrow> r \<in> set rs
     \<Longrightarrow> fst r \<in> set (correlatividades d) \<and> k_estado (fst r) = ''activa''"
  unfolding getCorrelatividadesPorMateria_def
  by (auto split: if_splits option.splits)

lemma getCorrelatividadById_row:
  "getCorrelatividadById flt u i d = Inr k \<Longrightarrow> k \<in> set (correlatividades d) \<and> k_estado k = ''activa'' \<and> id_correlatividad k = i"
proof -
  assume a: "getCorrelatividadById flt u i d = Inr k"
  let ?ks = "concat (map (\<lambda>k. map (\<lambda>mp. k)
                                (filter (\<lambda>mp. id_materia mp = id_materia_principal k) (materias d)))
                 (filter (\<lambda>k. id_correlatividad k = i \<and> k_estado k = ''activa'') (correlatividades d)))"
  from a obtain ks where "?ks = k # ks"
    unfolding getCorrelatividadById_def
    by (auto split: if_splits option.splits list.splits)
  then have "k \<in> set ?ks" by simp
  then show ?thesis by auto
qed

text \<open>
  C1, amended: every row returned by a read of Subjects, Schedule-Slots or
  Prerequisite-Edges (the lists and the reads by id of the administration routes, and the
  public list of slots) is a row of its table whose own lifecycle state is \<open>'activa'\<close>. The
  state of the owning Career is not part of the filter.
\<close>

theorem reads_filter_own_state:
  "(getMateriasAll flt u q d = Inr ms \<longrightarrow> (\<forall>m \<in> set ms. m \<in> set (materias d) \<and> m_estado m = ''activa''))
 \<and> (getMateriaById flt u i d = Inr m \<longrightarrow> m \<in> set (materias d) \<and> m_estado m = ''activa'')
 \<and> (getHorariosPorMateria flt u im d = Inr hs \<longrightarrow>
       (\<forall>r \<in> set hs. fst r \<in> set (horarios d) \<and> h_estado (fst r) = ''activa''))
 \<and> (getHorarioById flt i d = Inr h \<longrightarrow> h \<in> set (horarios d) \<and> h_estado h = ''activa'')
 \<and> (getHorariosByMateria flt im d = Inr ps \<longrightarrow>
       (\<forall>r \<in> set ps. \<exists>h \<in> set (horarios d). h_estado h = ''activa''
           \<and> r = (dia_semana h, hora_inicio h, hora_fin h)))
 \<and> (getCorrelatividadesPorMateria flt u ip d = Inr ks \<longrightarrow>
       (\<forall>r \<in> set ks. fst r \<in> set (correlatividades d) \<and> k_estado (fst r) = ''activa''))
 \<and> (getCorrelatividadById flt u i d = Inr k \<longrightarrow> k \<in> set (correlatividades d) \<and> k_estado k = ''activa'')"
  using getMateriasAll_rows [of flt u q d ms] getMateriaById_row [of flt u i d m]
    getHorariosPorMateria_rows [of flt u im d hs] getHorarioById_row [of flt i d h]
    getHorariosByMateria_rows [of flt im d ps] getCorrelatividadesPorMateria_rows [of flt u ip d ks]
    getCorrelatividadById_row [of flt u i d k]
  by blast

theorem reads_filter_own_state_witness:
  "getMateriasAll no_fault usuario_rector None ejemplo_db = Inr [ejemplo_materia_10, ejemplo_materia_20]
   \<and> ejemplo_materia_10 \<in> set (materias ejemplo_db) \<and> m_estado ejemplo_materia_10 = ''activa''
   \<and> ejemplo_materia_20 \<in> set (materias ejemplo_db) \<and> m_estado ejemplo_materia_20 = ''activa''
   \<and> getMateriaById no_fault usuario_rector 20 ejemplo_db = Inr ejemplo_materia_20
   \<and> getHorariosPorMateria no_fault usuario_rector (Some 20) ejemplo_db
       = Inr [(ejemplo_horario_100, ''Latin'')]
   \<and> fst (ejemplo_horario_100, ''Latin'') \<in> set (horarios ejemplo_db)
   \<and> h_estado (fst (ejemplo_horario_100, ''Latin'')) = ''activa''
   \<and> getHorarioById no_fault 100 ejemplo_db = Inr ejemplo_horario_100
   \<and> ejemplo_horario_100 \<in> set (horarios ejemplo_db) \<and> h_estado ejemplo_horario_100 = ''activa''
   \<and> getHorariosByMateria no_fault (Some 20) ejemplo_db = Inr [(''Lunes'', ''08:00'', ''10:00'')]
   \<and> getCorrelatividadesPorMateria no_fault usuario_rector (Some 20) ejemplo_db
       = Inr [(ejemplo_correlatividad_1000, ''Latin'', ''Historia Antigua'')]
   \<and> k_estado (fst (ejemplo_correlatividad_1000, ''Latin'', ''Historia Antigua'')) = ''activa''
   \<and> getCorrelatividadById no_fault usuario_rector 1000 ejemplo_db = Inr ejemplo_correlatividad_1000
   \<and> k_estado ejemplo_correlatividad_1000 = ''activa''"
proof -
  have r1: "getMateriasAll no_fault usuario_rector None ejemplo_db
      = Inr [ejemplo_materia_10, ejemplo_materia_20]"
    by (simp add: getMateriasAll_def ejemplo_defs)
  have r2: "getMateriaById no_fault usuario_rector 20 ejemplo_db = Inr ejemplo_materia_20"
    by (simp add: getMateriaById_def ejemplo_defs)
  have r3: "getHorariosPorMateria no_fault usuario_rector (Some 20) ejemplo_db
       = Inr [(ejemplo_horario_100, ''Latin'')]"
    by (simp add: getHorariosPorMateria_def ejemplo_defs)
  have r4: "getHorarioById no_fault 100 ejemplo_db = Inr ejemplo_horario_100"
    by (simp add: getHorarioById_def ejemplo_defs)
  have r5: "getHorariosByMateria no_fault (Some 20) ejemplo_db = Inr [(''Lunes'', ''08:00'', ''10:00'')]"
    by (simp add: getHorariosByMateria_def ejemplo_defs)
  have r6: "getCorrelatividadesPorMateria no_fault usuario_rector (Some 20) ejemplo_db
       = Inr [(ejemplo_correlatividad_1000, ''Latin'', ''Historia Antigua'')]"
    by (simp add: getCorrelatividadesPorMateria_def ejemplo_defs)
  have r7: "getCorrelatividadById no_fault usuario_rector 1000 ejemplo_db = Inr ejemplo_correlatividad_1000"
    by (simp add: getCorrelatividadById_def ejemplo_defs)
  note t = reads_filter_own_state [where flt = no_fault and u = usuario_rector and q = None
      and d = ejemplo_db and ms = "[ejemplo_materia_10, ejemplo_materia_20]"
      and i = 20 and m = ejemplo_materia_20 and im = "Some 20"
      and hs = "[(ejemplo_horario_100, ''Latin'')]"
      and ps = "[(''Lunes'', ''08:00'', ''10:00'')]" and ip = "Some 20"
      and ks = "[(ejemplo_correlatividad_1000, ''Latin'', ''Historia Antigua'')]"]
  note t1 = t [THEN conjunct1, THEN mp, OF r1]
  note t3 = t [THEN conjunct2, THEN conjunct2, THEN conjunct1, THEN mp, OF r3]
  note t6 = t [THEN conjunct2, THEN conjunct2, THEN conjunct2, THEN conjunct2, THEN conjunct2,
      THEN conjunct1, THEN mp, OF r6]
  have m10: "ejemplo_materia_10 \<in> set (materias ejemplo_db) \<and> m_estado ejemplo_materia_10 = ''activa''"
    by (rule t1 [THEN bspec]) simp
  have m20: "ejemplo_materia_20 \<in> set (materias ejemplo_db) \<and> m_estado ejemplo_materia_20 = ''activa''"
    by (rule t1 [THEN bspec]) simp
  have h100: "fst (ejemplo_horario_100, ''Latin'') \<in> set (horarios ejemplo_db)
      \<and> h_estado (fst (ejemplo_horario_100, ''Latin'')) = ''activa''"
    by (rule t3 [THEN bspec]) simp
  have h100': "ejemplo_horario_100 \<in> set (horarios ejemplo_db) \<and> h_estado ejemplo_horario_100 = ''activa''"
    using h100 by simp
  have k1000: "fst (ejemplo_correlatividad_1000, ''Latin'', ''Historia Antigua'') \<in> set (correlatividades ejemplo_db)
      \<and> k_estado (fst (ejemplo_correlatividad_1000, ''Latin'', ''Historia Antigua'')) = ''activa''"
    by (rule t6 [THEN bspec]) simp
  have k1000': "k_estado ejemplo_correlatividad_1000 = ''activa''"
    using k1000 by simp
  show ?thesis
    by (intro conjI r1 r2 r3 r4 r5 r6 r7 m10 [THEN conjunct1] m10 [THEN conjunct2]
        m20 [THEN conjunct1] m20 [THEN conjunct2] h100 [THEN conjunct1] h100 [THEN conjunct2]
        h100' [THEN conjunct1] h100' [THEN conjunct2] k1000 [THEN conjunct2] k1000')
qed

text \<open>The careers \<open>protect\<close> attaches to a Coordinador are the assignments in the table.\<close>

lemma protect_coordinador:
  "protect flt0 now tok d = Inr u \<Longrightarrow> u_rol u = ''Coordinador''
     \<Longrightarrow> carreras_a_cargo_ids u = Some (carreras_de_admin d (u_id u))"
  unfolding protect_def
  by (auto split: option.splits if_splits payload.splits)

text \<open>
  C6: for a Coordinador principal (as \<open>protect\<close> builds it) with no assigned career, the
  lists of careers, subjects, schedule slots and prerequisite edges each answer the empty
  collection: no error response and no unfiltered set. (The storage call of the list is
  taken not to throw.)
\<close>

theorem coordinador_sin_carreras_listas_vacias:
  assumes "protect flt0 now tok d = Inr u"
    and "u_rol u = ''Coordinador''"
    and "carreras_de_admin d (u_id u) = []"
    and "flt (Query 1) = None"
  shows "getCarreras flt u d = Inr []
       \<and> getMateriasAll flt u q d = Inr []
       \<and> getHorariosPorMateria flt u im d = Inr []
       \<and> getCorrelatividadesPorMateria flt u (Some ip) d = Inr []"
proof -
  have ids: "carreras_a_cargo_ids u = Some []"
    using protect_coordinador [OF assms(1,2)] assms(3) by simp
  have "getCarreras flt u d = Inr []"
    using assms(2-4) by (simp add: getCarreras_def)
  moreover have "getMateriasAll flt u q d = Inr []"
    using assms(2) ids by (simp add: getMateriasAll_def)
  moreover have "getHorariosPorMateria flt u im d = Inr []"
    using assms(2-4) by (simp add: getHorariosPorMateria_def split: option.splits)
  moreover have "getCorrelatividadesPorMateria flt u (Some ip) d = Inr []"
    using assms(2-4) by (simp add: getCorrelatividadesPorMateria_def)
  ultimately show ?thesis by simp
qed

theorem coordinador_sin_carreras_listas_vacias_witness:
  "protect no_fault 10 (Some (generateToken 0 2 ''Coordinador'')) ejemplo_db_sin_asignaciones
     = Inr usuario_sin_carreras
   \<and> u_rol usuario_sin_carreras = ''Coordinador''
   \<and> carreras_de_admin ejemplo_db_sin_asignaciones (u_id usuario_sin_carreras) = []
   \<and> getCarreras no_fault usuario_sin_carreras ejemplo_db_sin_asignaciones = Inr []
   \<and> getMateriasAll no_fault usuario_sin_carreras None ejemplo_db_sin_asignaciones = Inr []
   \<and> getHorariosPorMateria no_fault usuario_sin_carreras (Some 20) ejemplo_db_sin_asignaciones = Inr []
   \<and> getCorrelatividadesPorMateria no_fault usuario_sin_carreras (Some 20)
        ejemplo_db_sin_asignaciones = Inr []"
proof -
  have p: "protect no_fault 10 (Some (generateToken 0 2 ''Coordinador'')) ejemplo_db_sin_asignaciones
     = Inr usuario_sin_carreras"
    by (simp add: protect_def generateToken_def jwt_sign_def find_administrador_def
        carreras_de_admin_def ejemplo_defs ejemplo_db_sin_asignaciones_def usuario_sin_carreras_def)
  have r: "u_rol usuario_sin_carreras = ''Coordinador''"
    by (simp add: usuario_sin_carreras_def)
  have c: "carreras_de_admin ejemplo_db_sin_asignaciones (u_id usuario_sin_carreras) = []"
    by (simp add: carreras_de_admin_def ejemplo_db_sin_asignaciones_def)
  have q: "no_fault (Query 1) = None" by (simp add: no_fault_def)
  note t = coordinador_sin_carreras_listas_vacias [of no_fault 10
      "Some (generateToken 0 2 ''Coordinador'')" ejemplo_db_sin_asignaciones usuario_sin_carreras
      no_fault None "Some 20" 20, OF p r c q]
  show ?thesis by (intro conjI p r c t [THEN conjunct1] t [THEN conjunct2, THEN conjunct1]
      t [THEN conjunct2, THEN conjunct2, THEN conjunct1]
      t [THEN conjunct2, THEN conjunct2, THEN conjunct2])
qed

subsection \<open>Credentials\<close>

text \<open>What \<open>validatePasswordRules\<close> accepts.\<close>

lemma validatePasswordRules_None_iff:
  "validatePasswordRules p = None \<longleftrightarrow>
     8 \<le> length p \<and> (\<exists>c \<in> set p. is_upper c) \<and> (\<exists>c \<in> set p. is_lower c)
     \<and> (\<exists>c \<in> set p. is_digit c)
     \<and> (\<exists>c \<in> set p. \<not> is_lower c \<and> \<not> is_upper c \<and> \<not> is_digit c \<and> \<not> is_space c)"
  by (auto simp: validatePasswordRules_def list_ex_iff)

text \<open>The two operations of the administration routes reject a password that breaks a
  rule and write nothing.\<close>

lemma createUserByAdmin_enforces_policy:
  assumes "n_contrasena b = Some p" and "validatePasswordRules p \<noteq> None"
  shows "status (fst (createUserByAdmin flt b d)) = 400 \<and> snd (createUserByAdmin flt b d) = d"
  using assms by (auto simp: createUserByAdmin_def split: option.splits)

lemma updateUserByAdmin_enforces_policy:
  assumes "b_newContrasena b = Some p" and "trim p \<noteq> []" and "validatePasswordRules (trim p) \<noteq> None"
  shows "snd (updateUserByAdmin M flt now u idAdminAEditar b d) = d"
proof -
  have bs: "\<exists>v. build_sqlParts now u b = Inl v"
    using assms by (cases "p = []") (auto simp: build_sqlParts_def trim_def split: option.splits)
  have w: "\<And>i cur c. snd (updateUserByAdmin_write flt now u i b cur c) = committed c"
    using bs by (auto simp: updateUserByAdmin_write_def tx_defs split: option.splits)
  show ?thesis
    by (simp add: updateUserByAdmin_def w tx_defs Let_def split: option.splits)
qed

text \<open>
  C9 asks every operation that sets a credential to reject a password that breaks the
  policy before a hash is stored. The password reset and the public registration do not:
  with the one-letter password \<open>a\<close>, which \<open>validatePasswordRules\<close> refuses, the reset
  answers 200 and stores its hash for administrator 2, and the registration answers with
  the new administrator 3 and stores its hash.
\<close>

theorem public_routes_accept_weak_password:
  "validatePasswordRules [97] = Some MenosDe8Caracteres
   \<and> resetPassword no_fault 10 (Some (jwt_sign 0 (ResetPayload 2) RESET_SECRET 3600)) (Some [97]) ejemplo_db
     = (Reply 200 ContrasenaRestablecida,
        ejemplo_db\<lparr>administradores := [ejemplo_rector, ejemplo_coordinador\<lparr>contrasena := Bcrypt [97]\<rparr>]\<rparr>)
   \<and> map contrasena (administradores (snd (registerUser no_fault 10 registro_sin_rol ejemplo_db)))
     = [Bcrypt [], Bcrypt [], Bcrypt [97]]"
  by (simp add: validatePasswordRules_def resetPassword_def jwt_sign_def affected_administrador_def
      update_administrador_def registerUser_def insert_administrador_def registro_sin_rol_def
      ejemplo_defs Let_def)

theorem public_routes_accept_weak_password_witness:
  "validatePasswordRules [97] = Some MenosDe8Caracteres
   \<and> fst (resetPassword no_fault 10 (Some (jwt_sign 0 (ResetPayload 2) RESET_SECRET 3600)) (Some [97])
          ejemplo_db) = Reply 200 ContrasenaRestablecida"
  using public_routes_accept_weak_password by simp

lemma find_append_fresh:
  "\<forall>x \<in> set xs. \<not> P x \<Longrightarrow> P y \<Longrightarrow> List.find P (xs @ [y]) = Some y"
  by (induction xs) simp_all

text \<open>
  C10: a call of the public registration that passes its check of name and password, with
  the role field omitted and the INSERT not throwing, creates the administrator with the
  role \<open>'Rector'\<close> and answers with that role and with a session token that verifies
  under the session secret, for one day, to the new identifier and the role \<open>'Rector'\<close>;
  where new accounts default to active and the identifier is fresh, \<open>protect\<close> admits the
  token as a Rector.
\<close>

theorem registerUser_default_rector:
  assumes "truthy (n_nombre_administrador b)" and "truthy (n_contrasena b)"
    and "n_rol b = None" and "flt (Query 1) = None"
  shows "fst (registerUser flt now b d)
           = Inr \<lparr>r_id_administrador = next_id_administrador d,
                  r_nombre_administrador = the (n_nombre_administrador b),
                  r_rol = ''Rector'',
                  r_token = generateToken now (next_id_administrador d) ''Rector''\<rparr>
      \<and> administradores (snd (registerUser flt now b d))
           = administradores d @
             [\<lparr>id_administrador = next_id_administrador d,
               nombre_administrador = the (n_nombre_administrador b),
               email = field_or_null (n_email b),
               contrasena = Bcrypt (the (n_contrasena b)),
               dni = field_or_null (n_dni b), telefono = field_or_null (n_telefono b),
               rol = ''Rector'', a_estado = default_estado_administrador d,
               a_fecha_eliminacion = None, a_id_administrador_eliminacion = None\<rparr>]
      \<and> (\<forall>t. t < now + 86400 \<longrightarrow>
            jwt_verify t (generateToken now (next_id_administrador d) ''Rector'') JWT_SECRET
              = Some (SessionPayload (next_id_administrador d) ''Rector''))
      \<and> (\<forall>t. t < now + 86400 \<and> default_estado_administrador d = ''activo''
              \<and> (\<forall>a \<in> set (administradores d). id_administrador a \<noteq> next_id_administrador d) \<longrightarrow>
            protect flt t (Some (generateToken now (next_id_administrador d) ''Rector''))
                (snd (registerUser flt now b d))
              = Inr \<lparr>u_id = next_id_administrador d, u_rol = ''Rector'', carreras_a_cargo_ids = None\<rparr>)"
proof -
  let ?row = "\<lparr>id_administrador = next_id_administrador d,
               nombre_administrador = the (n_nombre_administrador b),
               email = field_or_null (n_email b),
               contrasena = Bcrypt (the (n_contrasena b)),
               dni = field_or_null (n_dni b), telefono = field_or_null (n_telefono b),
               rol = ''Rector'', a_estado = default_estado_administrador d,
               a_fecha_eliminacion = None, a_id_administrador_eliminacion = None\<rparr>"
  let ?d' = "d\<lparr>administradores := administradores d @ [?row],
               next_id_administrador := Suc (next_id_administrador d)\<rparr>"
  have run: "registerUser flt now b d =
     (Inr \<lparr>r_id_administrador = next_id_administrador d,
                  r_nombre_administrador = the (n_nombre_administrador b),
                  r_rol = ''Rector'',
                  r_token = generateToken now (next_id_administrador d) ''Rector''\<rparr>, ?d')"
    using assms by (simp add: registerUser_def insert_administrador_def Let_def)
  have tok: "\<And>t. t < now + 86400 \<Longrightarrow>
       jwt_verify t (generateToken now (next_id_administrador d) ''Rector'') JWT_SECRET
         = Some (SessionPayload (next_id_administrador d) ''Rector'')"
    by (simp add: generateToken_def jwt_sign_def)
  have prot: "\<And>t. t < now + 86400 \<Longrightarrow> default_estado_administrador d = ''activo''
      \<Longrightarrow> \<forall>a \<in> set (administradores d). id_administrador a \<noteq> next_id_administrador d
      \<Longrightarrow> protect flt t (Some (generateToken now (next_id_administrador d) ''Rector'')) ?d'
          = Inr \<lparr>u_id = next_id_administrador d, u_rol = ''Rector'', carreras_a_cargo_ids = None\<rparr>"
  proof -
    fix t assume t: "t < now + 86400" and de: "default_estado_administrador d = ''activo''"
      and fresh: "\<forall>a \<in> set (administradores d). id_administrador a \<noteq> next_id_administrador d"
    have f: "find_administrador ?d' (next_id_administrador d) = Some ?row"
      unfolding find_administrador_def using fresh
      by (simp add: find_append_fresh)
    show "protect flt t (Some (generateToken now (next_id_administrador d) ''Rector'')) ?d'
          = Inr \<lparr>u_id = next_id_administrador d, u_rol = ''Rector'', carreras_a_cargo_ids = None\<rparr>"
      unfolding protect_def using tok [OF t] f de assms(4) by simp
  qed
  show ?thesis
    unfolding run fst_conv snd_conv using tok prot by simp
qed

theorem registerUser_default_rector_witness:
  "truthy (n_nombre_administrador registro_sin_rol) \<and> truthy (n_contrasena registro_sin_rol)
   \<and> n_rol registro_sin_rol = None \<and> no_fault (Query 1) = None
   \<and> fst (registerUser no_fault 10 registro_sin_rol ejemplo_db)
       = Inr \<lparr>r_id_administrador = 3, r_nombre_administrador = ''Eva'', r_rol = ''Rector'',
              r_token = generateToken 10 3 ''Rector''\<rparr>
   \<and> jwt_verify 100 (generateToken 10 3 ''Rector'') JWT_SECRET = Some (SessionPayload 3 ''Rector'')
   \<and> protect no_fault 100 (Some (generateToken 10 3 ''Rector''))
        (snd (registerUser no_fault 10 registro_sin_rol ejemplo_db))
       = Inr \<lparr>u_id = 3, u_rol = ''Rector'', carreras_a_cargo_ids = None\<rparr>"
proof -
  have h: "truthy (n_nombre_administrador registro_sin_rol)" "truthy (n_contrasena registro_sin_rol)"
    "n_rol registro_sin_rol = None" "no_fault (Query 1) = None"
    by (simp_all add: registro_sin_rol_def no_fault_def)
  have v: "next_id_administrador ejemplo_db = 3" "the (n_nombre_administrador registro_sin_rol) = ''Eva''"
    by (simp_all add: ejemplo_db_def registro_sin_rol_def)
  note t = registerUser_default_rector [where b = registro_sin_rol and flt = no_fault and now = 10
      and d = ejemplo_db, OF h, unfolded v]
  have t100: "(100::nat) < 10 + 86400" by simp
  have fresh: "(100::nat) < 10 + 86400 \<and> default_estado_administrador ejemplo_db = ''activo''
      \<and> (\<forall>a \<in> set (administradores ejemplo_db). id_administrador a \<noteq> 3)"
    by (simp add: ejemplo_defs)
  show ?thesis
    by (intro conjI h t [THEN conjunct1]
        t [THEN conjunct2, THEN conjunct2, THEN conjunct1, THEN spec, THEN mp, OF t100]
        t [THEN conjunct2, THEN conjunct2, THEN conjunct2, THEN spec, THEN mp, OF fresh])
qed

subsection \<open>Updating a career\<close>

text \<open>What the transaction commits when none of its calls throws.\<close>

lemma updateCarrera_tx_committed:
  assumes "flt GetConnection = None" "flt BeginTransaction = None" "flt (Query 2) = None"
    "flt (Query 3) = None" "flt (Query 4) = None" "flt Commit = None"
  shows "snd (updateCarrera_tx flt now u i b d) =
     (let d2 = delete_asignaciones_de_carrera i (update_carrera now (u_id u) i b d) in
      if truthy_num (cb_id_coordinador b)
        then insert_admin_carrera (the (cb_id_coordinador b)) i d2 else d2)"
  using assms unfolding updateCarrera_tx_def
  by (simp add: tx_defs Let_def split: option.splits)

lemma updateCarrera_committed_asignaciones:
  "admin_carrera
     (let d2 = delete_asignaciones_de_carrera i (update_carrera now a i b d) in
      if truthy_num co then insert_admin_carrera (the co) i d2 else d2)
   = filter (\<lambda>ac. snd ac \<noteq> i) (admin_carrera d) @ (if truthy_num co then [(the co, i)] else [])"
  by (simp add: Let_def delete_asignaciones_de_carrera_def update_carrera_def insert_admin_carrera_def)

text \<open>
  C5: a Career update that passes validation and authorisation, with no storage call of
  the transaction throwing, leaves for that career exactly the one Assignment to the
  coordinator supplied (a truthy \<open>id_coordinador\<close>) and no Assignment when none was
  supplied; so at most one Assignment exists for the career afterwards. The Assignments
  of other careers are as before.
\<close>

theorem updateCarrera_replaces_assignment:
  assumes "truthy (cb_nombre_carrera b)" "truthy_num (cb_duracion b)"
    "truthy (cb_modalidad b)" "truthy_num (cb_anio_aprobacion b)"
    and "truthy (cb_estado b) \<longrightarrow> the (cb_estado b) \<in> {''activa'', ''cerrada'', ''inactiva''}"
    and "truthy (cb_estado b) \<and> the (cb_estado b) \<noteq> ''activa'' \<longrightarrow> u_rol u = ''Rector''"
    and "u_rol u = ''Coordinador'' \<longrightarrow> (u_id u, i) \<in> set (admin_carrera d)"
    and "\<forall>c \<in> {GetConnection, BeginTransaction, Query 1, Query 2, Query 3, Query 4, Commit}. flt c = None"
  shows "filter (\<lambda>ac. snd ac = i) (admin_carrera (snd (updateCarrera flt now u i b d)))
           = (if truthy_num (cb_id_coordinador b) then [(the (cb_id_coordinador b), i)] else [])
       \<and> length (filter (\<lambda>ac. snd ac = i) (admin_carrera (snd (updateCarrera flt now u i b d)))) \<le> 1
       \<and> filter (\<lambda>ac. snd ac \<noteq> i) (admin_carrera (snd (updateCarrera flt now u i b d)))
           = filter (\<lambda>ac. snd ac \<noteq> i) (admin_carrera d)"
proof -
  have tx: "updateCarrera flt now u i b d = updateCarrera_tx flt now u i b d"
    using assms by (auto simp add: updateCarrera_def)
  have ac: "admin_carrera (snd (updateCarrera flt now u i b d))
     = filter (\<lambda>ac. snd ac \<noteq> i) (admin_carrera d)
       @ (if truthy_num (cb_id_coordinador b) then [(the (cb_id_coordinador b), i)] else [])"
    unfolding tx using assms(8)
    by (simp add: updateCarrera_tx_committed updateCarrera_committed_asignaciones)
  show ?thesis unfolding ac by simp
qed

theorem updateCarrera_replaces_assignment_witness:
  "truthy (cb_nombre_carrera body_carrera) \<and> truthy_num (cb_duracion body_carrera)
   \<and> truthy (cb_modalidad body_carrera) \<and> truthy_num (cb_anio_aprobacion body_carrera)
   \<and> filter (\<lambda>ac. snd ac = 1)
        (admin_carrera (snd (updateCarrera no_fault 7 usuario_rector 1 body_carrera ejemplo_db_dos_asignaciones)))
       = [(2, 1)]
   \<and> filter (\<lambda>ac. snd ac = 1)
        (admin_carrera (snd (updateCarrera no_fault 7 usuario_rector 1
           (body_carrera\<lparr>cb_id_coordinador := None\<rparr>) ejemplo_db_dos_asignaciones)))
       = []"
proof -
  have v: "truthy (cb_nombre_carrera body_carrera)" "truthy_num (cb_duracion body_carrera)"
    "truthy (cb_modalidad body_carrera)" "truthy_num (cb_anio_aprobacion body_carrera)"
    by (simp_all add: body_carrera_def)
  have v': "truthy (cb_nombre_carrera (body_carrera\<lparr>cb_id_coordinador := None\<rparr>))"
    "truthy_num (cb_duracion (body_carrera\<lparr>cb_id_coordinador := None\<rparr>))"
    "truthy (cb_modalidad (body_carrera\<lparr>cb_id_coordinador := None\<rparr>))"
    "truthy_num (cb_anio_aprobacion (body_carrera\<lparr>cb_id_coordinador := None\<rparr>))"
    by (simp_all add: body_carrera_def)
  have e: "truthy (cb_estado body_carrera) \<longrightarrow>
      the (cb_estado body_carrera) \<in> {''activa'', ''cerrada'', ''inactiva''}"
    "truthy (cb_estado body_carrera) \<and> the (cb_estado body_carrera) \<noteq> ''activa''
       \<longrightarrow> u_rol usuario_rector = ''Rector''"
    by (simp_all add: body_carrera_def)
  have e': "truthy (cb_estado (body_carrera\<lparr>cb_id_coordinador := None\<rparr>)) \<longrightarrow>
      the (cb_estado (body_carrera\<lparr>cb_id_coordinador := None\<rparr>)) \<in> {''activa'', ''cerrada'', ''inactiva''}"
    "truthy (cb_estado (body_carrera\<lparr>cb_id_coordinador := None\<rparr>))
       \<and> the (cb_estado (body_carrera\<lparr>cb_id_coordinador := None\<rparr>)) \<noteq> ''activa''
       \<longrightarrow> u_rol usuario_rector = ''Rector''"
    by (simp_all add: body_carrera_def)
  have r: "u_rol usuario_rector = ''Coordinador''
      \<longrightarrow> (u_id usuario_rector, 1) \<in> set (admin_carrera ejemplo_db_dos_asignaciones)"
    by (simp add: usuario_rector_def)
  have f: "\<forall>c \<in> {GetConnection, BeginTransaction, Query 1, Query 2, Query 3, Query 4, Commit}.
      no_fault c = None"
    by (simp add: no_fault_def)
  have c1: "(if truthy_num (cb_id_coordinador body_carrera)
             then [(the (cb_id_coordinador body_carrera), 1)] else []) = [(2, 1::nat)]"
    by (simp add: body_carrera_def)
  have c2: "(if truthy_num (cb_id_coordinador (body_carrera\<lparr>cb_id_coordinador := None\<rparr>))
             then [(the (cb_id_coordinador (body_carrera\<lparr>cb_id_coordinador := None\<rparr>)), 1)] else [])
            = ([] :: (nat \<times> nat) list)"
    by simp
  note t1 = updateCarrera_replaces_assignment [where b = body_carrera and u = usuario_rector
      and i = 1 and d = ejemplo_db_dos_asignaciones and flt = no_fault and now = 7,
      OF v e r f, THEN conjunct1, unfolded c1]
  note t2 = updateCarrera_replaces_assignment [where b = "body_carrera\<lparr>cb_id_coordinador := None\<rparr>"
      and u = usuario_rector and i = 1 and d = ejemplo_db_dos_asignaciones and flt = no_fault
      and now = 7, OF v' e' r f, THEN conjunct1, unfolded c2]
  show ?thesis by (intro conjI v t1 t2)
qed

subsection \<open>Soft-deleting twice\<close>

lemma filter_map_preserved:
  "(\<And>x. P (f x) = P x) \<Longrightarrow> filter P (map f xs) = map f (filter P xs)"
  by (induction xs) simp_all

lemma find_map_preserved:
  "(\<And>x. P (f x) = P x) \<Longrightarrow> List.find P (map f xs) = map_option f (List.find P xs)"
  by (induction xs) simp_all

lemma filter_map_none:
  "(\<And>x. \<not> P (f x)) \<Longrightarrow> filter P (map f xs) = []"
  by (induction xs) simp_all

text \<open>Subjects.\<close>

lemma deleteMateria_first:
  assumes "u_rol u = ''Rector''" and "filter (\<lambda>m. id_materia m = i) (materias d) = m # ms"
    and "m_estado m \<noteq> ''inactiva''"
  shows "deleteMateria no_fault now u i d
           = (Reply 200 MateriaDadaDeBaja, soft_delete_materia now (u_id u) i d)"
  using assms unfolding deleteMateria_def by (simp add: no_fault_def)

lemma deleteMateria_again:
  assumes "filter (\<lambda>m. id_materia m = i) (materias d) = m # ms"
  shows "deleteMateria no_fault now' u' i (soft_delete_materia now a i d)
           = (Reply 400 MateriaYaInactiva, soft_delete_materia now a i d)"
proof -
  let ?f = "\<lambda>m. if id_materia m = i
                              then m\<lparr>m_estado := ''inactiva'', m_fecha_eliminacion := Some now,
                                     m_id_administrador_eliminacion := Some a\<rparr>
                              else m"
  have "filter (\<lambda>m. id_materia m = i) (materias (soft_delete_materia now a i d))
      = map ?f (filter (\<lambda>m. id_materia m = i) (materias d))"
    unfolding soft_delete_materia_def by (simp add: filter_map_preserved)
  also have "\<dots> = ?f m # map ?f ms" by (simp add: assms)
  finally have fl: "filter (\<lambda>m. id_materia m = i) (materias (soft_delete_materia now a i d))
      = ?f m # map ?f ms" .
  have idm: "id_materia m = i"
    using hd_filter_mem [OF assms] by simp
  show ?thesis
    unfolding deleteMateria_def fl using idm by (simp add: no_fault_def)
qed

text \<open>Schedule slots.\<close>

lemma deleteHorario_first:
  assumes "u_rol u = ''Rector''" and "filter (\<lambda>h. id_horario h = i) (horarios d) = h # hs"
    and "h_estado h = ''activa''"
  shows "deleteHorario no_fault now u i d
           = (Reply 200 HorarioDadoDeBaja, soft_delete_horario now (u_id u) i d)"
proof -
  have "h \<in> set (filter (\<lambda>h. id_horario h = i \<and> h_estado h = ''activa'') (horarios d))"
    using hd_filter_mem [OF assms(2)] assms(3) by simp
  then have "filter (\<lambda>h. id_horario h = i \<and> h_estado h = ''activa'') (horarios d) \<noteq> []"
    by (metis empty_iff list.set(1))
  then show ?thesis
    using assms unfolding deleteHorario_def by (simp add: no_fault_def)
qed

lemma deleteHorario_again:
  assumes "filter (\<lambda>h. id_horario h = i) (horarios d) = h # hs" and "h_estado h = ''activa''"
  shows "deleteHorario no_fault now' u' i (soft_delete_horario now a i d)
           = (Reply 400 HorarioYaInactivo, soft_delete_horario now a i d)"
proof -
  let ?f = "\<lambda>h. if id_horario h = i \<and> h_estado h = ''activa''
                              then h\<lparr>h_estado := ''inactiva'', h_fecha_eliminacion := Some now,
                                     h_id_administrador_eliminacion := Some a\<rparr>
                              else h"
  have "filter (\<lambda>h. id_horario h = i) (horarios (soft_delete_horario now a i d))
      = map ?f (filter (\<lambda>h. id_horario h = i) (horarios d))"
    unfolding soft_delete_horario_def by (simp add: filter_map_preserved)
  also have "\<dots> = ?f h # map ?f hs" by (simp add: assms)
  finally have fl: "filter (\<lambda>h. id_horario h = i) (horarios (soft_delete_horario now a i d))
      = ?f h # map ?f hs" .
  have idh: "id_horario h = i"
    using hd_filter_mem [OF assms(1)] by simp
  show ?thesis
    unfolding deleteHorario_def fl using idh assms(2) by (simp add: no_fault_def)
qed

text \<open>Prerequisite edges.\<close>

lemma deleteCorrelatividad_first:
  assumes "u_rol u = ''Rector''"
    and "filter (\<lambda>k. id_correlatividad k = i) (correlatividades d) = k # ks"
    and "k_estado k \<noteq> ''inactiva''"
  shows "deleteCorrelatividad no_fault now u i d
           = (Reply 200 CorrelatividadDadaDeBaja, soft_delete_correlatividad now (u_id u) i d)"
  using assms unfolding deleteCorrelatividad_def by (simp add: no_fault_def)

lemma deleteCorrelatividad_again:
  assumes "filter (\<lambda>k. id_correlatividad k = i) (correlatividades d) = k # ks"
  shows "deleteCorrelatividad no_fault now' u' i (soft_delete_correlatividad now a i d)
           = (Reply 400 CorrelatividadYaInactiva, soft_delete_correlatividad now a i d)"
proof -
  let ?f = "\<lambda>k. if id_correlatividad k = i
                              then k\<lparr>k_estado := ''inactiva'', k_fecha_eliminacion := Some now,
                                     k_id_administrador_eliminacion := Some a\<rparr>
                              else k"
  have "filter (\<lambda>k. id_correlatividad k = i) (correlatividades (soft_delete_correlatividad now a i d))
      = map ?f (filter (\<lambda>k. id_correlatividad k = i) (correlatividades d))"
    unfolding soft_delete_correlatividad_def by (simp add: filter_map_preserved)
  also have "\<dots> = ?f k # map ?f ks" by (simp add: assms)
  finally have fl: "filter (\<lambda>k. id_correlatividad k = i)
        (correlatividades (soft_delete_correlatividad now a i d)) = ?f k # map ?f ks" .
  have idk: "id_correlatividad k = i"
    using hd_filter_mem [OF assms] by simp
  show ?thesis
    unfolding deleteCorrelatividad_def fl using idk by (simp add: no_fault_def)
qed

text \<open>Careers.\<close>

lemma soft_delete_carrera_none_left:
  "filter (\<lambda>x. id_carrera x = i \<and> c_estado x \<noteq> ''inactiva'')
     (carreras (soft_delete_carrera now a i d)) = []"
  unfolding soft_delete_carrera_def by (simp add: filter_map_none)

lemma soft_delete_carrera_ids:
  "filter (\<lambda>x. id_carrera x = i) (carreras (soft_delete_carrera now a i d))
     = map (\<lambda>c. if id_carrera c = i \<and> c_estado c \<noteq> ''inactiva''
                              then c\<lparr>c_estado := ''inactiva'', c_fecha_eliminacion := Some now,
                                     c_id_administrador_eliminacion := Some a\<rparr>
                              else c) (filter (\<lambda>x. id_carrera x = i) (carreras d))"
  unfolding soft_delete_carrera_def by (simp add: filter_map_preserved)

lemma deleteCarrera_first:
  assumes "u_rol u = ''Rector''" and "c \<in> set (carreras d)" and "id_carrera c = i"
    and "c_estado c \<noteq> ''inactiva''"
  shows "deleteCarrera no_fault now u i d
           = (Reply 200 CarreraEliminada,
              delete_asignaciones_de_carrera i (soft_delete_carrera now (u_id u) i d))"
proof -
  have "c \<in> set (filter (\<lambda>x. id_carrera x = i \<and> c_estado x \<noteq> ''inactiva'') (carreras d))"
    using assms(2-4) by simp
  then have "filter (\<lambda>x. id_carrera x = i \<and> c_estado x \<noteq> ''inactiva'') (carreras d) \<noteq> []"
    by (metis empty_iff list.set(1))
  then show ?thesis
    using assms(1) unfolding deleteCarrera_def by (simp add: no_fault_def tx_defs)
qed

lemma deleteCarrera_again:
  assumes "u_rol u = ''Rector''" and "c \<in> set (carreras d)" and "id_carrera c = i"
  shows "deleteCarrera no_fault now' u i
             (delete_asignaciones_de_carrera i (soft_delete_carrera now a i d))
           = (Reply 400 CarreraYaInactiva,
              delete_asignaciones_de_carrera i (soft_delete_carrera now a i d))"
proof -
  let ?d1 = "delete_asignaciones_de_carrera i (soft_delete_carrera now a i d)"
  have cs: "carreras ?d1 = carreras (soft_delete_carrera now a i d)"
    by (simp add: delete_asignaciones_de_carrera_def)
  have none: "filter (\<lambda>x. id_carrera x = i \<and> c_estado x \<noteq> ''inactiva'') (carreras ?d1) = []"
    unfolding cs by (rule soft_delete_carrera_none_left)
  have "c \<in> set (filter (\<lambda>x. id_carrera x = i) (carreras d))" using assms(2,3) by simp
  then have "filter (\<lambda>x. id_carrera x = i) (carreras d) \<noteq> []"
    by (metis empty_iff list.set(1))
  then have some: "filter (\<lambda>x. id_carrera x = i) (carreras ?d1) \<noteq> []"
    unfolding cs soft_delete_carrera_ids by simp
  show ?thesis
    using assms(1) none some unfolding deleteCarrera_def
    by (simp add: no_fault_def tx_defs)
qed

text \<open>Administrators.\<close>

lemma deleteUserByAdmin_first:
  assumes "u_id u \<noteq> 0" "p \<noteq> String_of (u_id u)" "M p = Some i"
    "find_administrador d i = Some a" "a_estado a \<noteq> ''inactivo''"
  shows "deleteUserByAdmin M no_fault now u p d =
    (Reply 200 (AdministradorEliminado p),
     soft_delete_administrador now (u_id u) i
       (if rol a = ''Coordinador'' then delete_asignaciones_de_admin i d else d))"
  using assms find_administrador_affected [OF assms(4)]
  unfolding deleteUserByAdmin_def
  by (simp add: no_fault_def tx_defs)

lemma find_administrador_soft_deleted:
  assumes "find_administrador d i = Some a"
  shows "find_administrador (soft_delete_administrador now l i
            (if r then delete_asignaciones_de_admin i d else d)) i
         = Some (a\<lparr>a_estado := ''inactivo'', a_fecha_eliminacion := Some now,
                    a_id_administrador_eliminacion := Some l\<rparr>)"
proof -
  have ia: "id_administrador a = i" using assms by (simp add: find_administrador_mem)
  have "administradores (soft_delete_administrador now l i
            (if r then delete_asignaciones_de_admin i d else d))
        = map (\<lambda>x. if id_administrador x = i
               then x\<lparr>a_estado := ''inactivo'', a_fecha_eliminacion := Some now,
                      a_id_administrador_eliminacion := Some l\<rparr>
               else x) (administradores d)"
    by (simp add: soft_delete_administrador_def update_administrador_def delete_asignaciones_de_admin_def)
  then show ?thesis
    using assms ia unfolding find_administrador_def
    by (simp add: find_map_preserved)
qed

lemma deleteUserByAdmin_again:
  assumes "u_id u \<noteq> 0" "p \<noteq> String_of (u_id u)" "M p = Some i"
    "find_administrador d1 i = Some a'" "a_estado a' = ''inactivo''"
  shows "deleteUserByAdmin M no_fault now' u p d1 = (Reply 404 AdministradorNoEncontradoOYaInactivo, d1)"
  using assms unfolding deleteUserByAdmin_def
  by (simp add: no_fault_def tx_defs)

text \<open>What a soft delete answers for an identifier no row has: plain not-found.\<close>

lemma delete_not_found:
  "M p = None \<or> (\<exists>i. M p = Some i \<and> find_administrador d i = None) \<Longrightarrow> u_id u \<noteq> 0
     \<Longrightarrow> p \<noteq> String_of (u_id u) \<Longrightarrow>
     deleteUserByAdmin M no_fault now u p d = (Reply 404 AdministradorNoEncontrado, d)"
  "filter (\<lambda>x. id_carrera x = i) (carreras d) = [] \<Longrightarrow> u_rol u = ''Rector'' \<Longrightarrow>
     deleteCarrera no_fault now u i d = (Reply 404 CarreraNoEncontrada, d)"
  "filter (\<lambda>m. id_materia m = i) (materias d) = [] \<Longrightarrow>
     deleteMateria no_fault now u i d = (Reply 404 MateriaNoEncontrada, d)"
  "filter (\<lambda>h. id_horario h = i) (horarios d) = [] \<Longrightarrow>
     deleteHorario no_fault now u i d = (Reply 404 HorarioNoEncontrado, d)"
  "filter (\<lambda>k. id_correlatividad k = i) (correlatividades d) = [] \<Longrightarrow>
     deleteCorrelatividad no_fault now u i d = (Reply 404 CorrelatividadNoEncontrada, d)"
proof -
  show "M p = None \<or> (\<exists>i. M p = Some i \<and> find_administrador d i = None) \<Longrightarrow> u_id u \<noteq> 0
     \<Longrightarrow> p \<noteq> String_of (u_id u) \<Longrightarrow>
     deleteUserByAdmin M no_fault now u p d = (Reply 404 AdministradorNoEncontrado, d)"
    by (auto simp: deleteUserByAdmin_def no_fault_def tx_defs)
  show "filter (\<lambda>m. id_materia m = i) (materias d) = [] \<Longrightarrow>
     deleteMateria no_fault now u i d = (Reply 404 MateriaNoEncontrada, d)"
    by (simp add: deleteMateria_def no_fault_def)
  show "filter (\<lambda>h. id_horario h = i) (horarios d) = [] \<Longrightarrow>
     deleteHorario no_fault now u i d = (Reply 404 HorarioNoEncontrado, d)"
    by (simp add: deleteHorario_def no_fault_def)
  show "filter (\<lambda>k. id_correlatividad k = i) (correlatividades d) = [] \<Longrightarrow>
     deleteCorrelatividad no_fault now u i d = (Reply 404 CorrelatividadNoEncontrada, d)"
    by (simp add: deleteCorrelatividad_def no_fault_def)
  assume n: "filter (\<lambda>x. id_carrera x = i) (carreras d) = []" and r: "u_rol u = ''Rector''"
  have "filter (\<lambda>x. id_carrera x = i \<and> c_estado x \<noteq> ''inactiva'') (carreras d) = []"
    using n by (simp add: filter_empty_conv)
  then show "deleteCarrera no_fault now u i d = (Reply 404 CarreraNoEncontrada, d)"
    using n r by (simp add: deleteCarrera_def no_fault_def tx_defs)
qed

text \<open>
  When the acting principal is a Rector: for each entity type (Administrator, Career,
  Subject, Schedule-Slot, Prerequisite-Edge), a soft delete of an entity that exists and
  is not yet soft-deleted (for a slot: is active) answers 200, and the same soft delete
  invoked again on the resulting tables is answered with the already-inactive error of
  that type (404 "not found or already inactive" for an administrator, 400 "already
  inactive" for the others), which is not the plain not-found answer, and leaves the
  tables, audit fields included, exactly as the first delete left them. (No storage call
  throws.)
\<close>

lemma soft_delete_twice_rector:
  assumes "u_rol u = ''Rector''" and "u_id u \<noteq> 0"
  shows
   "(p \<noteq> String_of (u_id u) \<and> M p = Some ia \<and> find_administrador d ia = Some a
       \<and> a_estado a \<noteq> ''inactivo'' \<longrightarrow>
       fst (deleteUserByAdmin M no_fault now u p d) = Reply 200 (AdministradorEliminado p)
     \<and> deleteUserByAdmin M no_fault now' u p (snd (deleteUserByAdmin M no_fault now u p d))
         = (Reply 404 AdministradorNoEncontradoOYaInactivo, snd (deleteUserByAdmin M no_fault now u p d)))
  \<and> (c \<in> set (carreras d) \<and> id_carrera c = ic \<and> c_estado c \<noteq> ''inactiva'' \<longrightarrow>
       fst (deleteCarrera no_fault now u ic d) = Reply 200 CarreraEliminada
     \<and> deleteCarrera no_fault now' u ic (snd (deleteCarrera no_fault now u ic d))
         = (Reply 400 CarreraYaInactiva, snd (deleteCarrera no_fault now u ic d)))
  \<and> (filter (\<lambda>m. id_materia m = im) (materias d) = m # ms \<and> m_estado m \<noteq> ''inactiva'' \<longrightarrow>
       fst (deleteMateria no_fault now u im d) = Reply 200 MateriaDadaDeBaja
     \<and> deleteMateria no_fault now' u im (snd (deleteMateria no_fault now u im d))
         = (Reply 400 MateriaYaInactiva, snd (deleteMateria no_fault now u im d)))
  \<and> (filter (\<lambda>h. id_horario h = ih) (horarios d) = h # hs \<and> h_estado h = ''activa'' \<longrightarrow>
       fst (deleteHorario no_fault now u ih d) = Reply 200 HorarioDadoDeBaja
     \<and> deleteHorario no_fault now' u ih (snd (deleteHorario no_fault now u ih d))
         = (Reply 400 HorarioYaInactivo, snd (deleteHorario no_fault now u ih d)))
  \<and> (filter (\<lambda>k. id_correlatividad k = ik) (correlatividades d) = k # ks
        \<and> k_estado k \<noteq> ''inactiva'' \<longrightarrow>
       fst (deleteCorrelatividad no_fault now u ik d) = Reply 200 CorrelatividadDadaDeBaja
     \<and> deleteCorrelatividad no_fault now' u ik (snd (deleteCorrelatividad no_fault now u ik d))
         = (Reply 400 CorrelatividadYaInactiva, snd (deleteCorrelatividad no_fault now u ik d)))
  \<and> Reply 404 AdministradorNoEncontradoOYaInactivo \<noteq> Reply 404 AdministradorNoEncontrado
  \<and> Reply 400 CarreraYaInactiva \<noteq> Reply 404 CarreraNoEncontrada
  \<and> Reply 400 MateriaYaInactiva \<noteq> Reply 404 MateriaNoEncontrada
  \<and> Reply 400 HorarioYaInactivo \<noteq> Reply 404 HorarioNoEncontrado
  \<and> Reply 400 CorrelatividadYaInactiva \<noteq> Reply 404 CorrelatividadNoEncontrada"
proof (intro conjI impI)
  assume h: "p \<noteq> String_of (u_id u) \<and> M p = Some ia \<and> find_administrador d ia = Some a
      \<and> a_estado a \<noteq> ''inactivo''"
  then have h1: "p \<noteq> String_of (u_id u)" and hm: "M p = Some ia"
    and h2: "find_administrador d ia = Some a"
    and h3: "a_estado a \<noteq> ''inactivo''" by simp_all
  note first = deleteUserByAdmin_first [where M = M and p = p, OF assms(2) h1 hm h2 h3]
  show "fst (deleteUserByAdmin M no_fault now u p d) = Reply 200 (AdministradorEliminado p)"
    by (simp add: first)
  have f: "find_administrador (snd (deleteUserByAdmin M no_fault now u p d)) ia
      = Some (a\<lparr>a_estado := ''inactivo'', a_fecha_eliminacion := Some now,
                 a_id_administrador_eliminacion := Some (u_id u)\<rparr>)"
    unfolding first snd_conv by (rule find_administrador_soft_deleted [OF h2])
  show "deleteUserByAdmin M no_fault now' u p (snd (deleteUserByAdmin M no_fault now u p d))
         = (Reply 404 AdministradorNoEncontradoOYaInactivo, snd (deleteUserByAdmin M no_fault now u p d))"
    by (rule deleteUserByAdmin_again [where M = M and p = p, OF assms(2) h1 hm f]) simp
next
  assume h: "c \<in> set (carreras d) \<and> id_carrera c = ic \<and> c_estado c \<noteq> ''inactiva''"
  then have h1: "c \<in> set (carreras d)" and h2: "id_carrera c = ic"
    and h3: "c_estado c \<noteq> ''inactiva''" by simp_all
  note first = deleteCarrera_first [OF assms(1) h1 h2 h3]
  show "fst (deleteCarrera no_fault now u ic d) = Reply 200 CarreraEliminada"
    by (simp add: first)
  show "deleteCarrera no_fault now' u ic (snd (deleteCarrera no_fault now u ic d))
         = (Reply 400 CarreraYaInactiva, snd (deleteCarrera no_fault now u ic d))"
    unfolding first snd_conv by (rule deleteCarrera_again [OF assms(1) h1 h2])
next
  assume h: "filter (\<lambda>m. id_materia m = im) (materias d) = m # ms \<and> m_estado m \<noteq> ''inactiva''"
  then have h1: "filter (\<lambda>m. id_materia m = im) (materias d) = m # ms"
    and h2: "m_estado m \<noteq> ''inactiva''" by simp_all
  note first = deleteMateria_first [OF assms(1) h1 h2]
  show "fst (deleteMateria no_fault now u im d) = Reply 200 MateriaDadaDeBaja"
    by (simp add: first)
  show "deleteMateria no_fault now' u im (snd (deleteMateria no_fault now u im d))
         = (Reply 400 MateriaYaInactiva, snd (deleteMateria no_fault now u im d))"
    unfolding first snd_conv by (rule deleteMateria_again [OF h1])
next
  assume h: "filter (\<lambda>h. id_horario h = ih) (horarios d) = h # hs \<and> h_estado h = ''activa''"
  then have h1: "filter (\<lambda>h. id_horario h = ih) (horarios d) = h # hs"
    and h2: "h_estado h = ''activa''" by simp_all
  note first = deleteHorario_first [OF assms(1) h1 h2]
  show "fst (deleteHorario no_fault now u ih d) = Reply 200 HorarioDadoDeBaja"
    by (simp add: first)
  show "deleteHorario no_fault now' u ih (snd (deleteHorario no_fault now u ih d))
         = (Reply 400 HorarioYaInactivo, snd (deleteHorario no_fault now u ih d))"
    unfolding first snd_conv by (rule deleteHorario_again [OF h1 h2])
next
  assume h: "filter (\<lambda>k. id_correlatividad k = ik) (correlatividades d) = k # ks
        \<and> k_estado k \<noteq> ''inactiva''"
  then have h1: "filter (\<lambda>k. id_correlatividad k = ik) (correlatividades d) = k # ks"
    and h2: "k_estado k \<noteq> ''inactiva''" by simp_all
  note first = deleteCorrelatividad_first [OF assms(1) h1 h2]
  show "fst (deleteCorrelatividad no_fault now u ik d) = Reply 200 CorrelatividadDadaDeBaja"
    by (simp add: first)
  show "deleteCorrelatividad no_fault now' u ik (snd (deleteCorrelatividad no_fault now u ik d))
         = (Reply 400 CorrelatividadYaInactiva, snd (deleteCorrelatividad no_fault now u ik d))"
    unfolding first snd_conv by (rule deleteCorrelatividad_again [OF h1])
qed simp_all

text \<open>\<open>checkMateriaAccess\<close> asks for a subject in the state \<open>'activo'\<close>.\<close>

lemma checkMateriaAccess_activo:
  "checkMateriaAccess d idMateria idAdministrador
     \<Longrightarrow> \<exists>m \<in> set (materias d). id_materia m = idMateria \<and> m_estado m = ''activo''"
  unfolding checkMateriaAccess_def list_ex_iff by blast

text \<open>
  C7 asks that, for every entity type, the first soft delete of an entity succeed. For a
  Schedule-Slot and for a Prerequisite-Edge it does not when the acting principal is a
  Coordinador, whom the routes admit: \<open>checkMateriaAccess\<close> looks for the subject in the
  state \<open>'activo'\<close>, while the states of a subject are \<open>'activa'\<close> and \<open>'inactiva'\<close>, so it
  finds none, and the first soft delete of a slot or of an edge that exists and is not
  inactive is answered 403 with nothing written, also for a subject of a career assigned
  to the Coordinador. (No storage call throws.)
\<close>

theorem coordinador_soft_delete_refused:
  assumes "u_rol u = ''Coordinador''"
    and "\<forall>m \<in> set (materias d). m_estado m = ''activa'' \<or> m_estado m = ''inactiva''"
  shows "(filter (\<lambda>h. id_horario h = ih) (horarios d) = h # hs \<and> h_estado h \<noteq> ''inactiva'' \<longrightarrow>
            deleteHorario no_fault now u ih d = (Reply 403 NoCoordinaLaCarrera, d))
       \<and> (filter (\<lambda>k. id_correlatividad k = ik) (correlatividades d) = k # ks
            \<and> k_estado k \<noteq> ''inactiva'' \<longrightarrow>
            deleteCorrelatividad no_fault now u ik d = (Reply 403 NoCoordinaLaCarrera, d))"
proof -
  have na: "\<not> checkMateriaAccess d x (u_id u)" for x
  proof
    assume "checkMateriaAccess d x (u_id u)"
    then obtain m where "m \<in> set (materias d)" and "m_estado m = ''activo''"
      using checkMateriaAccess_activo by blast
    with assms(2) show False by auto
  qed
  show ?thesis
  proof (intro conjI impI)
    assume "filter (\<lambda>h. id_horario h = ih) (horarios d) = h # hs \<and> h_estado h \<noteq> ''inactiva''"
    then show "deleteHorario no_fault now u ih d = (Reply 403 NoCoordinaLaCarrera, d)"
      using assms(1) na unfolding deleteHorario_def by (simp add: no_fault_def)
  next
    assume "filter (\<lambda>k. id_correlatividad k = ik) (correlatividades d) = k # ks
            \<and> k_estado k \<noteq> ''inactiva''"
    then show "deleteCorrelatividad no_fault now u ik d = (Reply 403 NoCoordinaLaCarrera, d)"
      using assms(1) na unfolding deleteCorrelatividad_def by (simp add: no_fault_def)
  qed
qed

text \<open>The Coordinador 2 (Ana), admitted by \<open>protect\<close> with the career 1, and the active slot
  101 and the active edge 1001 of the active subject 10 of that career: both soft deletes
  are answered 403 and leave the tables as they were, while the Rector's soft delete of
  the same slot succeeds, and so does the Coordinador's soft delete of the subject
  itself, which tests the career against the list \<open>protect\<close> attached.\<close>

theorem coordinador_soft_delete_refused_witness:
  "protect no_fault 7 (Some (generateToken 0 2 ''Coordinador'')) ejemplo_db_coordinador
     = Inr usuario_coordinador
   \<and> h_id_materia ejemplo_horario_101 = id_materia ejemplo_materia_10
   \<and> id_materia_principal ejemplo_correlatividad_1001 = id_materia ejemplo_materia_10
   \<and> m_estado ejemplo_materia_10 = ''activa''
   \<and> (u_id usuario_coordinador, m_id_carrera ejemplo_materia_10)
        \<in> set (admin_carrera ejemplo_db_coordinador)
   \<and> h_estado ejemplo_horario_101 = ''activa'' \<and> k_estado ejemplo_correlatividad_1001 = ''activa''
   \<and> deleteHorario no_fault 7 usuario_coordinador 101 ejemplo_db_coordinador
       = (Reply 403 NoCoordinaLaCarrera, ejemplo_db_coordinador)
   \<and> deleteCorrelatividad no_fault 7 usuario_coordinador 1001 ejemplo_db_coordinador
       = (Reply 403 NoCoordinaLaCarrera, ejemplo_db_coordinador)
   \<and> fst (deleteHorario no_fault 7 usuario_rector 101 ejemplo_db_coordinador)
       = Reply 200 HorarioDadoDeBaja
   \<and> fst (deleteMateria no_fault 7 usuario_coordinador 10 ejemplo_db_coordinador)
       = Reply 200 MateriaDadaDeBaja"
proof -
  have r: "u_rol usuario_coordinador = ''Coordinador''"
    by (simp add: usuario_coordinador_def)
  have ms: "\<forall>m \<in> set (materias ejemplo_db_coordinador). m_estado m = ''activa'' \<or> m_estado m = ''inactiva''"
    by (simp add: ejemplo_db_coordinador_def ejemplo_defs)
  have hh: "filter (\<lambda>h. id_horario h = 101) (horarios ejemplo_db_coordinador) = ejemplo_horario_101 # []
      \<and> h_estado ejemplo_horario_101 \<noteq> ''inactiva''"
    by (simp add: ejemplo_db_coordinador_def ejemplo_horario_101_def ejemplo_defs)
  have hk: "filter (\<lambda>k. id_correlatividad k = 1001) (correlatividades ejemplo_db_coordinador)
        = ejemplo_correlatividad_1001 # []
      \<and> k_estado ejemplo_correlatividad_1001 \<noteq> ''inactiva''"
    by (simp add: ejemplo_db_coordinador_def ejemplo_correlatividad_1001_def ejemplo_defs)
  note t = coordinador_soft_delete_refused [OF r ms, where now = 7]
  note th = t [where ih = 101 and h = ejemplo_horario_101 and hs = "[]", THEN conjunct1, THEN mp, OF hh]
  note tk = t [where ik = 1001 and k = ejemplo_correlatividad_1001 and ks = "[]",
      THEN conjunct2, THEN mp, OF hk]
  have p: "protect no_fault 7 (Some (generateToken 0 2 ''Coordinador'')) ejemplo_db_coordinador
     = Inr usuario_coordinador"
    by (simp add: protect_def generateToken_def jwt_sign_def find_administrador_def
        carreras_de_admin_def ejemplo_db_coordinador_def ejemplo_defs)
  have facts: "h_id_materia ejemplo_horario_101 = id_materia ejemplo_materia_10"
    "id_materia_principal ejemplo_correlatividad_1001 = id_materia ejemplo_materia_10"
    "m_estado ejemplo_materia_10 = ''activa''"
    "(u_id usuario_coordinador, m_id_carrera ejemplo_materia_10)
        \<in> set (admin_carrera ejemplo_db_coordinador)"
    "h_estado ejemplo_horario_101 = ''activa''" "k_estado ejemplo_correlatividad_1001 = ''activa''"
    by (simp_all add: ejemplo_db_coordinador_def ejemplo_horario_101_def
        ejemplo_correlatividad_1001_def ejemplo_defs)
  have rector: "fst (deleteHorario no_fault 7 usuario_rector 101 ejemplo_db_coordinador)
       = Reply 200 HorarioDadoDeBaja"
    by (simp add: deleteHorario_def ejemplo_db_coordinador_def ejemplo_horario_101_def ejemplo_defs)
  have materia: "fst (deleteMateria no_fault 7 usuario_coordinador 10 ejemplo_db_coordinador)
       = Reply 200 MateriaDadaDeBaja"
    by (simp add: deleteMateria_def ejemplo_db_coordinador_def ejemplo_defs)
  show ?thesis
    by (intro conjI p facts th tk rector materia)
qed

subsection \<open>Curriculum layout\<close>

lemma foldl_plus_sum_list: "foldl (\<lambda>acc m. acc + f m) a xs = a + sum_list (map f xs)"
  for a :: real
  by (induction xs arbitrary: a) simp_all

lemma totalSpaceNeeded_sum:
  "totalSpaceNeeded K g = 2.2 + (20 + 30 + sum_list (map (rowHeight K) (materias_del_anio g)) + 25) + 15"
  by (simp add: totalSpaceNeeded_def Let_def foldl_plus_sum_list)

text \<open>Writing text draws no row: all it adds to the trace is page breaks.\<close>

lemma emit_lines_draws: "filter (\<lambda>e. e \<noteq> AddPage) (fst (emit_lines K f lineGap n doc)) = []"
  by (induction n arbitrary: doc) (simp_all add: Let_def split_beta)

lemma doc_text_draws: "filter (\<lambda>e. e \<noteq> AddPage) (fst (doc_text K f s y width lineGap doc)) = []"
  by (simp add: doc_text_def Let_def split_beta emit_lines_draws)

lemma draw_cells_foldl_draws:
  "filter (\<lambda>e. e \<noteq> AddPage)
     (fst (foldl (\<lambda>(evs, dc) (txt, width).
              (let (ev, dc1) = doc_text K f txt y (width - padding) 1 dc in (evs @ ev, dc1)))
           (evs0, doc) cells))
   = filter (\<lambda>e. e \<noteq> AddPage) evs0"
  by (induction cells arbitrary: evs0 doc) (simp_all add: split_beta doc_text_draws)

lemma draw_cells_draws: "filter (\<lambda>e. e \<noteq> AddPage) (fst (draw_cells K f y padding doc cells)) = []"
  unfolding draw_cells_def draw_cells_foldl_draws by simp

lemma drawTableRow_draws:
  "filter (\<lambda>e. e \<noteq> AddPage) (fst (drawTableRow K k doc y heights data isHeader isTotalRow))
     = [Draw k y (if isHeader then 25 else heights)]"
  by (simp add: drawTableRow_def Let_def split_beta draw_cells_draws)

lemma dibujar_materias_draws:
  "map kind_of (filter (\<lambda>e. e \<noteq> AddPage) (fst (dibujar_materias K doc y ms)))
     = map (\<lambda>m. MateriaRow (p_id_materia m)) ms
   \<and> map height_of (filter (\<lambda>e. e \<noteq> AddPage) (fst (dibujar_materias K doc y ms)))
     = map (rowHeight K) ms"
  by (induction ms arbitrary: doc y) (simp_all add: split_beta drawTableRow_draws)

text \<open>Whatever PDFKit measures: a row drawn so low that a line of its first cell would end
  below the bottom margin is followed at once by a page break, made by PDFKit while that
  cell is written.\<close>

lemma doc_text_below_margin:
  "y + currentLineHeight K f > maxY K
     \<Longrightarrow> fst (doc_text K f s y width lineGap doc)
           = AddPage # fst (emit_lines K f lineGap (lines_of K f s width)
                             (addPage (doc\<lparr>doc_font := f, doc_y := y\<rparr>)))"
  by (simp add: doc_text_def Let_def split_beta)

lemma draw_cells_foldl_acc:
  fixes K :: pdfkit and f :: font and y :: real and padding :: real and F
  defines "F \<equiv> (\<lambda>(evs, dc) (txt, width).
              (let (ev, dc1) = doc_text K f txt y (width - padding) 1 dc in (evs @ ev, dc1)))"
  shows "foldl F (evs0, doc) cells
           = (evs0 @ fst (foldl F ([], doc) cells), snd (foldl F ([], doc) cells))"
proof (induction cells arbitrary: evs0 doc)
  case Nil
  show ?case by simp
next
  case (Cons c cells)
  let ?ev = "fst (doc_text K f (fst c) y (snd c - padding) 1 doc)"
  let ?dc = "snd (doc_text K f (fst c) y (snd c - padding) 1 doc)"
  have step: "F (e, doc) c = (e @ ?ev, ?dc)" for e
    by (simp add: F_def split_beta)
  have "foldl F (evs0, doc) (c # cells) = foldl F (evs0 @ ?ev, ?dc) cells"
    by (simp add: step)
  also have "\<dots> = ((evs0 @ ?ev) @ fst (foldl F ([], ?dc) cells), snd (foldl F ([], ?dc) cells))"
    by (rule Cons.IH)
  finally have a: "foldl F (evs0, doc) (c # cells)
      = ((evs0 @ ?ev) @ fst (foldl F ([], ?dc) cells), snd (foldl F ([], ?dc) cells))" .
  have "foldl F ([], doc) (c # cells) = foldl F ([] @ ?ev, ?dc) cells"
    by (simp only: foldl_Cons step)
  also have "\<dots> = (([] @ ?ev) @ fst (foldl F ([], ?dc) cells), snd (foldl F ([], ?dc) cells))"
    by (rule Cons.IH)
  finally have b: "foldl F ([], doc) (c # cells)
      = (([] @ ?ev) @ fst (foldl F ([], ?dc) cells), snd (foldl F ([], ?dc) cells))" .
  show ?case unfolding a b by simp
qed

lemma draw_cells_Cons:
  "fst (draw_cells K f y padding doc (c # cells))
     = fst (doc_text K f (fst c) y (snd c - padding) 1 doc)
       @ fst (draw_cells K f y padding (snd (doc_text K f (fst c) y (snd c - padding) 1 doc)) cells)"
proof -
  let ?F = "\<lambda>(evs, dc) (txt, width).
              (let (ev, dc1) = doc_text K f txt y (width - padding) 1 dc in (evs @ ev, dc1))"
  let ?ev = "fst (doc_text K f (fst c) y (snd c - padding) 1 doc)"
  let ?dc = "snd (doc_text K f (fst c) y (snd c - padding) 1 doc)"
  have first: "draw_cells K f y padding doc (c # cells) = foldl ?F (?ev, ?dc) cells"
    by (simp add: draw_cells_def split_beta)
  have acc: "foldl ?F (?ev, ?dc) cells
      = (?ev @ fst (foldl ?F ([], ?dc) cells), snd (foldl ?F ([], ?dc) cells))"
    by (rule draw_cells_foldl_acc)
  have rest: "draw_cells K f y padding ?dc cells = foldl ?F ([], ?dc) cells"
    by (simp only: draw_cells_def)
  show ?thesis
    by (simp only: first acc rest fst_conv)
qed

lemma row_below_margin_starts_page:
  assumes "data \<noteq> []"
    and "y + 3 + currentLineHeight K (isHeader \<or> isTotalRow, 7) > page_height K - 30"
  shows "\<exists>rest. fst (drawTableRow K k doc y heights data isHeader isTotalRow)
           = Draw k y (if isHeader then 25 else heights) # AddPage # rest"
proof -
  obtain c cs where data: "data = c # cs" using assms(1) by (cases data) auto
  have z: "zip data COL_WIDTHS = (c, 30) # zip cs [50, 160, 60, 60, 50, 60, 80, 80, 70, 90]"
    by (simp add: data COL_WIDTHS_def)
  have below: "y + 3 + currentLineHeight K (isHeader \<or> isTotalRow, 7) > maxY K"
    using assms(2) by (simp add: maxY_def)
  have "\<exists>rest. fst (draw_cells K (isHeader \<or> isTotalRow, 7) (y + 3) 6 doc (zip data COL_WIDTHS))
      = AddPage # rest"
    unfolding z draw_cells_Cons fst_conv snd_conv doc_text_below_margin [OF below] by simp
  then show ?thesis
    by (simp add: drawTableRow_def Let_def split_beta)
qed

text \<open>
  The decision of the page break, in the iteration of a year group, from whatever document
  and vertical position it starts with: when the current vertical position plus the year
  header (20), the column header (30), the measured heights of the subject rows, the
  totals row (25) and the trailing spacing (15) exceeds the page height less the bottom
  margin (30), the first thing done is a page break; the iteration starts with a page
  break exactly when that sum with the small space of 2.2 added exceeds it; and what is
  drawn is the year header, the column header, one row per subject with its measured
  height, and the totals row.
\<close>

lemma layout_anio_draws:
  "\<exists>y0 y1 y2 doc4 yT.
     filter (\<lambda>e. e \<noteq> AddPage) (fst (layout_anio K headerData st g))
       = [Draw AnioHeader y0 20, Draw ColumnHeader y1 25]
         @ filter (\<lambda>e. e \<noteq> AddPage) (fst (dibujar_materias K doc4 y2 (materias_del_anio g)))
         @ [Draw TotalAnual yT 25]"
  by (simp add: layout_anio_def drawMergedAnioHeader_def dibujar_total_def Let_def split_beta
      doc_text_draws draw_cells_draws drawTableRow_draws, blast)

lemma page_break_decision:
  "(snd st + (20 + 30 + sum_list (map (rowHeight K) (materias_del_anio g)) + 25 + 15) > page_height K - 30
      \<longrightarrow> hd (fst (layout_anio K headerData st g)) = AddPage)
   \<and> (hd (fst (layout_anio K headerData st g)) = AddPage
        \<longleftrightarrow> snd st + totalSpaceNeeded K g > page_height K - 30)
   \<and> map kind_of (filter (\<lambda>e. e \<noteq> AddPage) (fst (layout_anio K headerData st g)))
       = AnioHeader # ColumnHeader # map (\<lambda>m. MateriaRow (p_id_materia m)) (materias_del_anio g)
         @ [TotalAnual]
   \<and> map height_of (filter (\<lambda>e. e \<noteq> AddPage) (fst (layout_anio K headerData st g)))
       = 20 # 25 # map (rowHeight K) (materias_del_anio g) @ [25]"
proof -
  have cond: "snd st + (20 + 30 + sum_list (map (rowHeight K) (materias_del_anio g)) + 25 + 15)
                > page_height K - 30
              \<Longrightarrow> snd st + totalSpaceNeeded K g > page_height K - 30"
    unfolding totalSpaceNeeded_sum by linarith
  have first: "hd (fst (layout_anio K headerData st g)) = AddPage
        \<longleftrightarrow> snd st + totalSpaceNeeded K g > page_height K - 30"
    by (simp add: layout_anio_def drawMergedAnioHeader_def Let_def split_beta)
  obtain y0 y1 y2 doc4 yT where tr: "filter (\<lambda>e. e \<noteq> AddPage) (fst (layout_anio K headerData st g))
       = [Draw AnioHeader y0 20, Draw ColumnHeader y1 25]
         @ filter (\<lambda>e. e \<noteq> AddPage) (fst (dibujar_materias K doc4 y2 (materias_del_anio g)))
         @ [Draw TotalAnual yT 25]"
    using layout_anio_draws by blast
  note rows = dibujar_materias_draws [of K doc4 y2 "materias_del_anio g"]
  show ?thesis
  proof (intro conjI impI)
    assume "snd st + (20 + 30 + sum_list (map (rowHeight K) (materias_del_anio g)) + 25 + 15)
                > page_height K - 30"
    from cond [OF this] show "hd (fst (layout_anio K headerData st g)) = AddPage"
      by (simp only: first)
  next
    show "hd (fst (layout_anio K headerData st g)) = AddPage
        \<longleftrightarrow> snd st + totalSpaceNeeded K g > page_height K - 30"
      by (rule first)
  next
    show "map kind_of (filter (\<lambda>e. e \<noteq> AddPage) (fst (layout_anio K headerData st g)))
       = AnioHeader # ColumnHeader # map (\<lambda>m. MateriaRow (p_id_materia m)) (materias_del_anio g)
         @ [TotalAnual]"
      unfolding tr using rows by simp
  next
    show "map height_of (filter (\<lambda>e. e \<noteq> AddPage) (fst (layout_anio K headerData st g)))
       = 20 # 25 # map (rowHeight K) (materias_del_anio g) @ [25]"
      unfolding tr using rows by simp
  qed
qed

text \<open>The example PDFKit in closed form: what writing a text, the cells of a row and
  each kind of row gives at a vertical position.\<close>

lemma ejemplo_pdfkit_simps:
  "page_height ejemplo_pdfkit = 595.28" "currentLineHeight ejemplo_pdfkit f = 8"
  "lines_of ejemplo_pdfkit f s w = (if s = [] then 0 else 1)"
  by (simp_all add: ejemplo_pdfkit_def)

lemma ejemplo_doc_text:
  "doc_text ejemplo_pdfkit f s y width lineGap doc =
     (if y + 8 > 565.28 then [AddPage] else [],
      \<lparr>doc_y = (if y + 8 > 565.28 then 30 else y) + (if s = [] then 0 else 8 + lineGap),
       doc_font = f\<rparr>)"
  by (cases doc) (simp add: doc_text_def ejemplo_pdfkit_simps maxY_def addPage_def Let_def)

lemma ejemplo_draw_cells_aux:
  "draw_cells ejemplo_pdfkit f y padding doc cells =
     (if cells = [] then ([], doc)
      else (if y + 8 > 565.28 then replicate (length cells) AddPage else [],
            \<lparr>doc_y = (if y + 8 > 565.28 then 30 else y) + (if fst (last cells) = [] then 0 else 9),
             doc_font = f\<rparr>))"
proof (induction cells rule: rev_induct)
  case Nil
  show ?case by (simp add: draw_cells_def)
next
  case (snoc c cells)
  have step: "draw_cells ejemplo_pdfkit f y padding doc (cells @ [c])
      = (fst (draw_cells ejemplo_pdfkit f y padding doc cells)
           @ fst (doc_text ejemplo_pdfkit f (fst c) y (snd c - padding) 1
                    (snd (draw_cells ejemplo_pdfkit f y padding doc cells))),
         snd (doc_text ejemplo_pdfkit f (fst c) y (snd c - padding) 1
                    (snd (draw_cells ejemplo_pdfkit f y padding doc cells))))"
    by (simp add: draw_cells_def split_beta)
  show ?case
    unfolding step snoc.IH
    by (simp add: ejemplo_doc_text replicate_append_same)
qed

lemma ejemplo_draw_cells:
  "cells \<noteq> [] \<Longrightarrow>
   draw_cells ejemplo_pdfkit f y padding doc cells =
     (if y + 8 > 565.28 then replicate (length cells) AddPage else [],
      \<lparr>doc_y = (if y + 8 > 565.28 then 30 else y) + (if fst (last cells) = [] then 0 else 9),
       doc_font = f\<rparr>)"
  by (simp add: ejemplo_draw_cells_aux)

lemma ejemplo_materia_plan_simps:
  "p_id_materia (ejemplo_materia_plan n) = String_of n"
  "rowData (ejemplo_materia_plan n)
     = [String_of n, [78, 47, 68], [72], [78, 47, 68], [78, 47, 68], [52], [78, 47, 68], [78, 47, 68],
        [], [], []]"
  "rowHeight ejemplo_pdfkit (ejemplo_materia_plan n) = 18"
  by (simp_all add: rowHeight_def heightOfString_def ejemplo_pdfkit_simps ejemplo_materia_plan_def
      rowData_def or_ND_def COL_WIDTHS_def Let_def)

lemma ejemplo_materia_row:
  "drawTableRow ejemplo_pdfkit k doc y h [c0, c1, c2, c3, c4, c5, c6, c7, c8, c9, []] False False =
     (Draw k y h # (if y + 11 > 565.28 then replicate 11 AddPage else []),
      \<lparr>doc_y = (if y + 11 > 565.28 then 30 else y + 3), doc_font = (False, 7)\<rparr>, y + h)"
  by (simp add: drawTableRow_def ejemplo_draw_cells COL_WIDTHS_def Let_def
      add.commute eval_nat_numeral)

lemma ejemplo_header_row:
  "drawTableRow ejemplo_pdfkit k doc y h ejemplo_headerData True False =
     (Draw k y 25 # (if y + 11 > 565.28 then replicate 11 AddPage else []),
      \<lparr>doc_y = (if y + 11 > 565.28 then 30 else y + 3) + 9, doc_font = (True, 7)\<rparr>, y + 25)"
  by (simp add: drawTableRow_def ejemplo_draw_cells ejemplo_headerData_def COL_WIDTHS_def Let_def
      add.commute eval_nat_numeral)

lemma ejemplo_anio_header:
  "anioTxt \<noteq> [] \<Longrightarrow>
   drawMergedAnioHeader ejemplo_pdfkit doc y anioTxt h =
     (Draw AnioHeader y h # (if y + 14 > 565.28 then [AddPage] else []),
      \<lparr>doc_y = (if y + 14 > 565.28 then 30 else y + 6) + 9, doc_font = (True, 9)\<rparr>, y + h)"
  by (simp add: drawMergedAnioHeader_def ejemplo_doc_text Let_def add.commute)

lemma ejemplo_total_row:
  "titulo \<noteq> [] \<Longrightarrow>
   dibujar_total ejemplo_pdfkit k doc y titulo totalTxt h =
     (Draw k y h # (if y + 15 > 565.28 then [AddPage] else [])
        @ (if y + 17 > 565.28 then replicate 5 AddPage else []),
      \<lparr>doc_y = (if y + 17 > 565.28 then 30 else y + 9), doc_font = (True, 7)\<rparr>, y + h)"
  by (simp add: dibujar_total_def ejemplo_doc_text ejemplo_draw_cells COL_WIDTHS_def TOTAL_HORAS_def
      Let_def add.commute eval_nat_numeral)



text \<open>A year of two subjects, from the same position, fits: no page is added, before the
  block or inside it.\<close>

lemma year_block_whole:
  "fst (layout_anio ejemplo_pdfkit ejemplo_headerData (ejemplo_document, 100) ejemplo_anio_2)
     = [Draw AnioHeader 101.6 20, Draw ColumnHeader 121.6 25,
        Draw (MateriaRow (String_of 1)) 146.6 18, Draw (MateriaRow (String_of 2)) 164.6 18,
        Draw TotalAnual 182.6 25]"
  by (simp add: layout_anio_def totalSpaceNeeded_sum ejemplo_materia_plan_simps ejemplo_materia_row
      ejemplo_header_row ejemplo_anio_header ejemplo_total_row ejemplo_pdfkit_simps
      moveDown_def addPage_def ejemplo_anio_2_def ejemplo_document_def Let_def)


text \<open>In the whole table the events of a year are one segment of the trace: those of its
  iteration.\<close>

lemma layout_anios_append:
  "fst (layout_anios K headerData st (gs @ g # gs'))
     = fst (layout_anios K headerData st gs)
       @ fst (layout_anio K headerData (snd (layout_anios K headerData st gs)) g)
       @ fst (layout_anios K headerData
                (snd (layout_anio K headerData (snd (layout_anios K headerData st gs)) g)) gs')"
  by (induction gs arbitrary: st) (simp_all add: split_beta)

end
